theory Spec2Isabelle
  imports Complex_Main "HOL-Library.Word"
begin

section \<open>Python values\<close>

text \<open>
  Job inputs, workflow graphs, render-engine responses and stream messages are all
  decoded JSON documents: Python \<open>None\<close>, \<open>bool\<close>, \<open>int\<close>, \<open>float\<close>, \<open>str\<close>,
  \<open>list\<close> and \<open>dict\<close>. A \<open>dict\<close> keeps insertion order, so it is an association
  list with distinct keys.
\<close>

datatype jvalue =
    JNull
  | JBool bool
  | JInt int
  | JFloat rat
  | JStr string
  | JArr "jvalue list"
  | JObj "(string \<times> jvalue) list"

type_synonym dict = "(string \<times> jvalue) list"

text \<open>\<open>d.get(k)\<close>: the value, \<open>None\<close> when the key is absent.\<close>

definition dget :: "dict \<Rightarrow> string \<Rightarrow> jvalue" where
  "dget d k = (case map_of d k of None \<Rightarrow> JNull | Some v \<Rightarrow> v)"

text \<open>\<open>d.get(k, default)\<close>.\<close>

definition dget_or :: "dict \<Rightarrow> string \<Rightarrow> jvalue \<Rightarrow> jvalue" where
  "dget_or d k dflt = (case map_of d k of None \<Rightarrow> dflt | Some v \<Rightarrow> v)"

text \<open>\<open>k in d\<close>.\<close>

definition has_key :: "dict \<Rightarrow> string \<Rightarrow> bool" where
  "has_key d k = (map_of d k \<noteq> None)"

text \<open>\<open>d[k] = v\<close>: an existing key keeps its position, a new key goes last.\<close>

fun dset :: "dict \<Rightarrow> string \<Rightarrow> jvalue \<Rightarrow> dict" where
  "dset [] k v = [(k, v)]"
| "dset ((k', v') # d) k v = (if k' = k then (k, v) # d else (k', v') # dset d k v)"

text \<open>Truth value of an object, as \<open>not x\<close> and \<open>if x\<close> test it.\<close>

fun truthy :: "jvalue \<Rightarrow> bool" where
  "truthy JNull = False"
| "truthy (JBool b) = b"
| "truthy (JInt i) = (i \<noteq> 0)"
| "truthy (JFloat r) = (r \<noteq> 0)"
| "truthy (JStr s) = (s \<noteq> [])"
| "truthy (JArr xs) = (xs \<noteq> [])"
| "truthy (JObj d) = (d \<noteq> [])"

text \<open>Lists and dicts are unhashable: a set membership test on them raises \<open>TypeError\<close>.\<close>

fun hashable :: "jvalue \<Rightarrow> bool" where
  "hashable (JArr xs) = False"
| "hashable (JObj d) = False"
| "hashable v = True"

subsection \<open>Exceptions\<close>

text \<open>
  The exceptions the source raises itself carry the message the source gives them.
  \<open>KeyError\<close> carries the missing key. \<open>TypeError\<close> and \<open>AttributeError\<close> are raised
  by the interpreter; \<open>LibError\<close> is any exception raised inside \<open>requests\<close>,
  \<open>websocket\<close>, \<open>boto3\<close>, \<open>json\<close> or the operating system, with its message.
\<close>

datatype exn =
    TimeoutError string
  | RuntimeError string
  | ValueError string
  | FileNotFoundError string
  | KeyError string
  | TypeError
  | AttributeError
  | LibError string

subsection \<open>The interpreter\<close>

text \<open>
  What the interpreter computes and the source does not fix is a parameter of the
  model: the text of a float, list or dict, the text of a set (its order follows the
  hash seed of the process), the hash of a string, and the message of an exception the
  interpreter raises.
\<close>

record interp =
  repr_other :: "jvalue \<Rightarrow> string"
  str_set :: "string set \<Rightarrow> string"
  hash_str :: "string \<Rightarrow> int"
  builtin_message :: "exn \<Rightarrow> string"

definition digit :: "nat \<Rightarrow> char" where
  "digit n = ''0123456789'' ! n"

fun str_nat :: "nat \<Rightarrow> string" where
  "str_nat n = (if n < 10 then [digit n] else str_nat (n div 10) @ [digit (n mod 10)])"

declare str_nat.simps [simp del]

definition str_int :: "int \<Rightarrow> string" where
  "str_int i = (if i < 0 then CHR ''-'' # str_nat (nat (- i)) else str_nat (nat i))"

text \<open>\<open>str(x)\<close>, which is also what an f-string puts in place of \<open>{x}\<close>.\<close>

fun py_str :: "interp \<Rightarrow> jvalue \<Rightarrow> string" where
  "py_str I JNull = ''None''"
| "py_str I (JBool b) = (if b then ''True'' else ''False'')"
| "py_str I (JInt i) = str_int i"
| "py_str I (JStr s) = s"
| "py_str I v = repr_other I v"

text \<open>\<open>str(e)\<close> for a caught exception; for a \<open>KeyError\<close> it is the key in quotes.\<close>

fun str_exn :: "interp \<Rightarrow> exn \<Rightarrow> string" where
  "str_exn I (TimeoutError m) = m"
| "str_exn I (RuntimeError m) = m"
| "str_exn I (ValueError m) = m"
| "str_exn I (FileNotFoundError m) = m"
| "str_exn I (LibError m) = m"
| "str_exn I (KeyError k) = [CHR 0x27] @ k @ [CHR 0x27]"
| "str_exn I e = builtin_message I e"

text \<open>\<open>x > 0\<close>: defined on numbers (a \<open>bool\<close> counts as 0 or 1), \<open>TypeError\<close> otherwise.\<close>

fun gt_zero :: "jvalue \<Rightarrow> exn + bool" where
  "gt_zero (JInt i) = Inr (0 < i)"
| "gt_zero (JFloat r) = Inr (0 < r)"
| "gt_zero (JBool b) = Inr b"
| "gt_zero v = Inl TypeError"

section \<open>Time\<close>

text \<open>
  \<open>time.time()\<close> is read in whole milliseconds. A blocking call (a receive, an HTTP
  request, a sleep) advances the clock by the time it took.
\<close>

definition seconds :: "int \<Rightarrow> int" where
  "seconds n = 1000 * n"

section \<open>Execution client (comfyui\_client.py)\<close>

definition EXECUTION_TIMEOUT :: int where
  "EXECUTION_TIMEOUT = 300"

text \<open>
  What \<open>ws.recv()\<close> returns: a binary frame, a text frame holding a JSON document
  (\<open>json.loads\<close> gives the value), or a text frame that \<open>json.loads\<close> rejects
  with the given message (a \<open>JSONDecodeError\<close>, which is a \<open>ValueError\<close>).
\<close>

datatype frame = Binary | Text jvalue | Malformed string

text \<open>The outcome of one pass through the body of the wait loop.\<close>

datatype step = Continue | Complete | Raise exn

definition on_message :: "interp \<Rightarrow> jvalue \<Rightarrow> jvalue \<Rightarrow> step" where
  "on_message I prompt_id msg =
     (case msg of
        JObj m \<Rightarrow>
          (let msg_type = dget m ''type'';
               msg_data = dget_or m ''data'' (JObj [])
           in if msg_type = JStr ''executing'' then
                (case msg_data of
                   JObj d \<Rightarrow>
                     if dget d ''prompt_id'' = prompt_id \<and> dget d ''node'' = JNull
                     then Complete else Continue
                 | _ \<Rightarrow> Raise AttributeError)
              else if msg_type = JStr ''execution_error'' then
                (case msg_data of
                   JObj d \<Rightarrow>
                     if dget d ''prompt_id'' = prompt_id then
                       (let node_id = dget_or d ''node_id'' (JStr ''unknown'');
                            error_msg = dget_or d ''exception_message'' (JStr ''Unknown error'')
                        in Raise (RuntimeError
                             (''ComfyUI execution error in node '' @ py_str I node_id
                                @ '': '' @ py_str I error_msg)))
                     else Continue
                 | _ \<Rightarrow> Raise AttributeError)
              else if msg_type = JStr ''progress'' then
                (case msg_data of
                   JObj d \<Rightarrow>
                     if dget d ''prompt_id'' = prompt_id then
                       (case gt_zero (dget_or d ''max'' (JInt 0)) of
                          Inl e \<Rightarrow> Raise e
                        | Inr _ \<Rightarrow> Continue)
                     else Continue
                 | _ \<Rightarrow> Raise AttributeError)
              else Continue)
      | _ \<Rightarrow> Raise AttributeError)"

type_synonym bytes = "8 word list"

text \<open>One call of \<open>requests.get\<close> on the liveness endpoint.\<close>

datatype poll = Status int | ConnectionError | Failure exn

text \<open>
  The render engine, seen from the client. Each field is what one kind of request
  returns: the \<open>i\<close>-th liveness poll with the time it took; the \<open>prompt_id\<close> of the
  response to a submission (a string, or absent), after \<open>raise_for_status\<close> and
  \<open>resp.json()\<close>; the frames the opened stream delivers, each with the time the
  receive blocked, and the exception \<open>recv\<close> raises once they are used up; the decoded
  history record; the content of an image. \<open>wait_start\<close> is the reading of
  \<open>time.time()\<close> on entry to the wait loop.
\<close>

record engine =
  system_stats :: "nat \<Rightarrow> nat \<times> poll"
  post_prompt :: "dict \<Rightarrow> string \<Rightarrow> exn + string option"
  ws_open :: "string \<Rightarrow> exn + (nat \<times> frame) list \<times> exn"
  wait_start :: int
  get_history :: "string \<Rightarrow> exn + jvalue"
  get_view :: "jvalue \<Rightarrow> jvalue \<Rightarrow> jvalue \<Rightarrow> exn + bytes"

text \<open>The requests the worker makes, in the order it makes them.\<close>

datatype action =
    GetSystemStats
  | Sleep int
  | ReadTemplate string
  | MakeDirs string
  | Download string
  | WriteFile string
  | PostPrompt dict string
  | WsConnect string
  | WsClose
  | GetHistory string
  | GetView jvalue jvalue jvalue
  | PutObject string string
  | PresignUrl string string

type_synonym 'a result = "(exn + 'a) \<times> action list"

record client =
  base_url :: string
  ws_url :: string
  client_id :: string

text \<open>\<open>ComfyUIClient.__init__\<close>; \<open>uuid\<close> is what \<open>str(uuid.uuid4())\<close> returns in this call.\<close>

definition ComfyUIClient :: "string \<Rightarrow> int \<Rightarrow> string \<Rightarrow> client" where
  "ComfyUIClient host port uuid =
     \<lparr> base_url = ''http://'' @ host @ '':'' @ str_int port,
       ws_url = ''ws://'' @ host @ '':'' @ str_int port @ ''/ws'',
       client_id = uuid \<rparr>"

function wait_ready_loop :: "engine \<Rightarrow> int \<Rightarrow> int \<Rightarrow> nat \<Rightarrow> int \<Rightarrow> bool result" where
  "wait_ready_loop E timeout start i now =
     (if now - start < seconds timeout then
        (case system_stats E i of
           (took, Status code) \<Rightarrow>
             if code = 200 then (Inr True, [GetSystemStats])
             else
               (case wait_ready_loop E timeout start (Suc i) (now + int took + seconds 2) of
                  (r, tr) \<Rightarrow> (r, GetSystemStats # Sleep (seconds 2) # tr))
         | (took, ConnectionError) \<Rightarrow>
             (case wait_ready_loop E timeout start (Suc i) (now + int took + seconds 2) of
                (r, tr) \<Rightarrow> (r, GetSystemStats # Sleep (seconds 2) # tr))
         | (took, Failure e) \<Rightarrow> (Inl e, [GetSystemStats]))
      else (Inr False, []))"
  by pat_completeness auto
termination
  by (relation "measure (\<lambda>(E, timeout, start, i, now). nat (start + seconds timeout - now))")
     (auto simp: seconds_def)

declare wait_ready_loop.simps [simp del]

text \<open>
  A poll after which the loop sleeps and polls again: any status but 200, or a
  \<open>requests.ConnectionError\<close>.
\<close>

fun unsuccessful :: "poll \<Rightarrow> bool" where
  "unsuccessful (Status code) = (code \<noteq> 200)"
| "unsuccessful ConnectionError = True"
| "unsuccessful (Failure e) = False"

text \<open>The requests of \<open>n\<close> rounds of polling and sleeping, and the time they take from poll \<open>i\<close> on.\<close>

definition rounds :: "nat \<Rightarrow> action list" where
  "rounds n = concat (replicate n [GetSystemStats, Sleep (seconds 2)])"

definition elapsed :: "engine \<Rightarrow> nat \<Rightarrow> nat \<Rightarrow> int" where
  "elapsed E i n = (\<Sum>j<n. int (fst (system_stats E (i + j))) + seconds 2)"

text \<open>\<open>wait_for_ready\<close>, entered when the clock reads \<open>now\<close>.\<close>

definition wait_for_ready :: "engine \<Rightarrow> int \<Rightarrow> int \<Rightarrow> bool result" where
  "wait_for_ready E timeout now = wait_ready_loop E timeout now 0 now"

definition queue_prompt :: "engine \<Rightarrow> client \<Rightarrow> dict \<Rightarrow> string result" where
  "queue_prompt E c workflow =
     (case post_prompt E workflow (client_id c) of
        Inl e \<Rightarrow> (Inl e, [PostPrompt workflow (client_id c)])
      | Inr None \<Rightarrow> (Inl (KeyError ''prompt_id''), [PostPrompt workflow (client_id c)])
      | Inr (Some prompt_id) \<Rightarrow> (Inr prompt_id, [PostPrompt workflow (client_id c)]))"

text \<open>The inner loop of \<open>_fetch_outputs\<close>, over the image entries of one node.\<close>

fun fetch_images :: "engine \<Rightarrow> jvalue list \<Rightarrow> bytes list result" where
  "fetch_images E [] = (Inr [], [])"
| "fetch_images E (image_info # rest) =
     (case image_info of
        JObj d \<Rightarrow>
          (case map_of d ''filename'' of
             None \<Rightarrow> (Inl (KeyError ''filename''), [])
           | Some filename \<Rightarrow>
               (let subfolder = dget_or d ''subfolder'' (JStr []);
                    img_type = dget_or d ''type'' (JStr ''output'');
                    req = GetView filename subfolder img_type
                in case get_view E filename subfolder img_type of
                     Inl e \<Rightarrow> (Inl e, [req])
                   | Inr content \<Rightarrow>
                       (case fetch_images E rest of
                          (Inl e, tr) \<Rightarrow> (Inl e, req # tr)
                        | (Inr images, tr) \<Rightarrow> (Inr (content # images), req # tr))))
      | _ \<Rightarrow> (Inl TypeError, []))"

text \<open>
  What \<open>for image_info in x\<close> runs over: the elements of a list, the characters of a
  string, the keys of a dict; anything else is not iterable.
\<close>

fun iterate :: "jvalue \<Rightarrow> exn + jvalue list" where
  "iterate (JArr xs) = Inr xs"
| "iterate (JStr s) = Inr (map (\<lambda>c. JStr [c]) s)"
| "iterate (JObj d) = Inr (map (\<lambda>kv. JStr (fst kv)) d)"
| "iterate v = Inl TypeError"

text \<open>The outer loop of \<open>_fetch_outputs\<close>, over the values of \<open>outputs.items()\<close>.\<close>

fun fetch_nodes :: "engine \<Rightarrow> jvalue list \<Rightarrow> bytes list result" where
  "fetch_nodes E [] = (Inr [], [])"
| "fetch_nodes E (node_output # rest) =
     (case node_output of
        JObj d \<Rightarrow>
          (case iterate (dget_or d ''images'' (JArr [])) of
             Inl e \<Rightarrow> (Inl e, [])
           | Inr infos \<Rightarrow>
               (case fetch_images E infos of
                  (Inl e, tr) \<Rightarrow> (Inl e, tr)
                | (Inr images, tr) \<Rightarrow>
                    (case fetch_nodes E rest of
                       (Inl e, tr') \<Rightarrow> (Inl e, tr @ tr')
                     | (Inr others, tr') \<Rightarrow> (Inr (images @ others), tr @ tr'))))
      | _ \<Rightarrow> (Inl AttributeError, []))"

definition fetch_outputs :: "engine \<Rightarrow> string \<Rightarrow> bytes list result" where
  "fetch_outputs E prompt_id =
     (case get_history E prompt_id of
        Inl e \<Rightarrow> (Inl e, [GetHistory prompt_id])
      | Inr history \<Rightarrow>
          (case history of
             JObj h \<Rightarrow>
               (case dget_or h prompt_id (JObj []) of
                  JObj prompt_history \<Rightarrow>
                    (case dget_or prompt_history ''outputs'' (JObj []) of
                       JObj outputs \<Rightarrow>
                         (case fetch_nodes E (map snd outputs) of
                            (r, tr) \<Rightarrow> (r, GetHistory prompt_id # tr))
                     | _ \<Rightarrow> (Inl AttributeError, [GetHistory prompt_id]))
                | _ \<Rightarrow> (Inl AttributeError, [GetHistory prompt_id]))
           | _ \<Rightarrow> (Inl AttributeError, [GetHistory prompt_id])))"

definition timeout_message :: string where
  "timeout_message = ''Workflow execution exceeded '' @ str_int EXECUTION_TIMEOUT @ ''s timeout''"

text \<open>
  The loop of \<open>_wait_for_completion\<close>: \<open>start\<close> is the clock on entry, \<open>now\<close> the
  clock at the loop test, \<open>closing\<close> the exception \<open>recv\<close> raises when the stream has
  no more frames.
\<close>

fun wait_loop ::
  "interp \<Rightarrow> engine \<Rightarrow> string \<Rightarrow> exn \<Rightarrow> int \<Rightarrow> int \<Rightarrow> (nat \<times> frame) list \<Rightarrow> bytes list result"
where
  "wait_loop I E prompt_id closing start now [] =
     (if now - start < seconds EXECUTION_TIMEOUT then (Inl closing, [])
      else (Inl (TimeoutError timeout_message), []))"
| "wait_loop I E prompt_id closing start now ((took, raw) # rest) =
     (if now - start < seconds EXECUTION_TIMEOUT then
        (case raw of
           Binary \<Rightarrow> wait_loop I E prompt_id closing start (now + int took) rest
         | Malformed m \<Rightarrow> (Inl (ValueError m), [])
         | Text msg \<Rightarrow>
             (case on_message I (JStr prompt_id) msg of
                Continue \<Rightarrow> wait_loop I E prompt_id closing start (now + int took) rest
              | Complete \<Rightarrow> fetch_outputs E prompt_id
              | Raise e \<Rightarrow> (Inl e, [])))
      else (Inl (TimeoutError timeout_message), []))"

definition wait_for_completion ::
  "interp \<Rightarrow> engine \<Rightarrow> (nat \<times> frame) list \<times> exn \<Rightarrow> string \<Rightarrow> bytes list result"
where
  "wait_for_completion I E ws prompt_id =
     wait_loop I E prompt_id (snd ws) (wait_start E) (wait_start E) (fst ws)"

text \<open>
  \<open>execute_workflow\<close>: submit, open the stream scoped by the client's identifier, wait,
  and close the stream on every way out of the wait.
\<close>

definition execute_workflow :: "interp \<Rightarrow> engine \<Rightarrow> client \<Rightarrow> dict \<Rightarrow> bytes list result" where
  "execute_workflow I E c workflow =
     (case queue_prompt E c workflow of
        (Inl e, tr) \<Rightarrow> (Inl e, tr)
      | (Inr prompt_id, tr) \<Rightarrow>
          (case ws_open E (client_id c) of
             Inl e \<Rightarrow> (Inl e, tr @ [WsConnect (client_id c)])
           | Inr ws \<Rightarrow>
               (case wait_for_completion I E ws prompt_id of
                  (r, tr') \<Rightarrow> (r, tr @ [WsConnect (client_id c)] @ tr' @ [WsClose]))))"

subsection \<open>Stream events\<close>

text \<open>
  The events of the stream and the JSON message each one is on the wire, with the
  \<open>type\<close> tags and field names the wait loop reads.
\<close>

datatype event =
    Executing string "string option"
  | Progress string int int
  | ExecutionError string string string

fun event_prompt_id :: "event \<Rightarrow> string" where
  "event_prompt_id (Executing p node) = p"
| "event_prompt_id (Progress p v m) = p"
| "event_prompt_id (ExecutionError p node_id message) = p"

fun is_progress :: "event \<Rightarrow> bool" where
  "is_progress (Progress p v m) = True"
| "is_progress e = False"

fun encode :: "event \<Rightarrow> frame" where
  "encode (Executing p node) =
     Text (JObj [(''type'', JStr ''executing''),
                 (''data'', JObj [(''node'', case node of None \<Rightarrow> JNull | Some n \<Rightarrow> JStr n),
                                  (''prompt_id'', JStr p)])])"
| "encode (Progress p v m) =
     Text (JObj [(''type'', JStr ''progress''),
                 (''data'', JObj [(''value'', JInt v), (''max'', JInt m),
                                  (''prompt_id'', JStr p)])])"
| "encode (ExecutionError p node_id message) =
     Text (JObj [(''type'', JStr ''execution_error''),
                 (''data'', JObj [(''prompt_id'', JStr p), (''node_id'', JStr node_id),
                                  (''exception_message'', JStr message)])])"

text \<open>A stream of events, each with the time its receive blocked.\<close>

definition frames_of :: "(nat \<times> event) list \<Rightarrow> (nat \<times> frame) list" where
  "frames_of evs = map (\<lambda>(took, ev). (took, encode ev)) evs"

definition total_time :: "(nat \<times> 'a) list \<Rightarrow> int" where
  "total_time xs = (\<Sum>x\<leftarrow>xs. int (fst x))"

declare wait_loop.simps [simp del]

text \<open>
  An event ends the wait for the job with the given \<open>prompt_id\<close> when it is that job's
  \<open>Executing\<close> event with no node, or that job's \<open>ExecutionError\<close>.
\<close>

fun terminal :: "string \<Rightarrow> event \<Rightarrow> bool" where
  "terminal pid (Executing p node) = (p = pid \<and> node = None)"
| "terminal pid (ExecutionError p node_id message) = (p = pid)"
| "terminal pid (Progress p v m) = False"

section \<open>Artifact publisher (storage.py)\<close>

definition PRESIGNED_URL_EXPIRY :: int where
  "PRESIGNED_URL_EXPIRY = 3600 * 24"

text \<open>
  The object store behind \<open>boto3\<close>: whether creating the client raises, whether
  \<open>put_object\<close> raises for a bucket, key, body and content type, and what
  \<open>generate_presigned_url\<close> returns for a bucket, key and validity.
\<close>

record s3 =
  boto3_client :: "exn option"
  put_object :: "string \<Rightarrow> string \<Rightarrow> bytes \<Rightarrow> string \<Rightarrow> exn option"
  generate_presigned_url :: "string \<Rightarrow> string \<Rightarrow> int \<Rightarrow> exn + string"

record storage_client =
  bucket :: string
  endpoint :: "string option"
  region :: string

text \<open>\<open>StorageClient.__init__\<close>, reading \<open>os.environ\<close>.\<close>

definition StorageClient :: "(string \<Rightarrow> string option) \<Rightarrow> s3 \<Rightarrow> exn + storage_client" where
  "StorageClient environ S =
     (case environ ''S3_BUCKET'' of
        None \<Rightarrow> Inl (KeyError ''S3_BUCKET'')
      | Some b \<Rightarrow>
          (case environ ''S3_ACCESS_KEY'' of
             None \<Rightarrow> Inl (KeyError ''S3_ACCESS_KEY'')
           | Some access \<Rightarrow>
               (case environ ''S3_SECRET_KEY'' of
                  None \<Rightarrow> Inl (KeyError ''S3_SECRET_KEY'')
                | Some secret \<Rightarrow>
                    (case boto3_client S of
                       Some e \<Rightarrow> Inl e
                     | None \<Rightarrow>
                         Inr \<lparr> bucket = b,
                               endpoint = environ ''S3_ENDPOINT'',
                               region = (case environ ''S3_REGION'' of
                                           None \<Rightarrow> ''auto'' | Some r \<Rightarrow> r) \<rparr>))))"

definition upload :: "s3 \<Rightarrow> storage_client \<Rightarrow> bytes \<Rightarrow> string \<Rightarrow> string \<Rightarrow> string result" where
  "upload S sc data key content_type =
     (case put_object S (bucket sc) key data content_type of
        Some e \<Rightarrow> (Inl e, [PutObject (bucket sc) key])
      | None \<Rightarrow>
          (case generate_presigned_url S (bucket sc) key PRESIGNED_URL_EXPIRY of
             Inl e \<Rightarrow> (Inl e, [PutObject (bucket sc) key, PresignUrl (bucket sc) key])
           | Inr url \<Rightarrow> (Inr url, [PutObject (bucket sc) key, PresignUrl (bucket sc) key])))"

section \<open>Template parameterizer (workflow\_loader.py)\<close>

definition WORKFLOW_MAP :: "(string \<times> string) list" where
  "WORKFLOW_MAP = [(''image_gen'', ''flux_image_gen.json''), (''face_swap'', ''face_swap.json'')]"

text \<open>
  The machine the worker runs on: \<open>os.environ\<close>, the port read from it when the
  handler module is loaded, whether a path exists, what \<open>json.load\<close> gives for a
  template file (a dict), whether \<open>os.makedirs\<close> raises, what \<open>requests.get\<close>
  gives for an image URL after \<open>raise_for_status\<close> (the \<open>content-type\<close> header, if
  any, and the body), what it raises for a URL that is not a string, and whether
  writing a file raises.
\<close>

record host =
  environ :: "string \<Rightarrow> string option"
  COMFYUI_PORT :: int
  path_exists :: "string \<Rightarrow> bool"
  read_json :: "string \<Rightarrow> exn + dict"
  makedirs :: "string \<Rightarrow> exn option"
  http_get :: "string \<Rightarrow> exn + string option \<times> bytes"
  bad_url :: "jvalue \<Rightarrow> exn"
  write_file :: "string \<Rightarrow> bytes \<Rightarrow> exn option"

text \<open>\<open>workflow[node]["inputs"][key] = value\<close>.\<close>

definition set_input :: "dict \<Rightarrow> string \<Rightarrow> string \<Rightarrow> jvalue \<Rightarrow> exn + dict" where
  "set_input workflow node key v =
     (case map_of workflow node of
        None \<Rightarrow> Inl (KeyError node)
      | Some (JObj nd) \<Rightarrow>
          (case map_of nd ''inputs'' of
             None \<Rightarrow> Inl (KeyError ''inputs'')
           | Some (JObj ins) \<Rightarrow>
               Inr (dset workflow node (JObj (dset nd ''inputs'' (JObj (dset ins key v)))))
           | Some _ \<Rightarrow> Inl TypeError)
      | Some _ \<Rightarrow> Inl TypeError)"

fun assign_all :: "dict \<Rightarrow> string \<Rightarrow> (string \<times> jvalue) list \<Rightarrow> exn + dict" where
  "assign_all workflow node [] = Inr workflow"
| "assign_all workflow node ((key, v) # kvs) =
     (case set_input workflow node key v of
        Inl e \<Rightarrow> Inl e
      | Inr workflow' \<Rightarrow> assign_all workflow' node kvs)"

text \<open>One \<open>if node in workflow:\<close> block with its assignments, in order.\<close>

definition inject_node :: "dict \<Rightarrow> string \<Rightarrow> (string \<times> jvalue) list \<Rightarrow> exn + dict" where
  "inject_node workflow node kvs =
     (if has_key workflow node then assign_all workflow node kvs else Inr workflow)"

fun inject_nodes :: "dict \<Rightarrow> (string \<times> (string \<times> jvalue) list) list \<Rightarrow> exn + dict" where
  "inject_nodes workflow [] = Inr workflow"
| "inject_nodes workflow ((node, kvs) # blocks) =
     (case inject_node workflow node kvs of
        Inl e \<Rightarrow> Inl e
      | Inr workflow' \<Rightarrow> inject_nodes workflow' blocks)"

text \<open>
  \<open>_inject_image_gen\<close>; \<open>rnd\<close> is what \<open>random.randint(0, 2**32 - 1)\<close> returns in
  this call, a 32-bit unsigned value.
\<close>

definition inject_image_gen :: "32 word \<Rightarrow> dict \<Rightarrow> dict \<Rightarrow> exn + dict" where
  "inject_image_gen rnd workflow params =
     (case map_of params ''prompt'' of
        None \<Rightarrow> Inl (KeyError ''prompt'')
      | Some prompt \<Rightarrow>
          (let negative = dget_or params ''negative_prompt''
                            (JStr ''blurry, low quality, watermark, text'');
               width = dget_or params ''width'' (JInt 1280);
               height = dget_or params ''height'' (JInt 720);
               seed = dget_or params ''seed'' (JInt (uint rnd));
               steps = dget_or params ''steps'' (JInt 25);
               cfg_scale = dget_or params ''cfg_scale'' (JFloat (15 / 2))
           in inject_nodes workflow
                [(''3'', [(''text'', prompt)]),
                 (''4'', [(''text'', negative)]),
                 (''5'', [(''width'', width), (''height'', height), (''batch_size'', JInt 1)]),
                 (''6'', [(''seed'', seed), (''steps'', steps), (''cfg'', cfg_scale)])]))"

text \<open>
  A job graph maps node identifiers to node descriptors, each a dict with a dict of
  \<open>inputs\<close>. \<open>input_of\<close> reads one input of one node.
\<close>

fun is_node :: "jvalue \<Rightarrow> bool" where
  "is_node (JObj nd) = (case map_of nd ''inputs'' of Some (JObj ins) \<Rightarrow> True | _ \<Rightarrow> False)"
| "is_node v = False"

definition is_job_graph :: "dict \<Rightarrow> bool" where
  "is_job_graph workflow = list_all (\<lambda>kv. is_node (snd kv)) workflow"

definition input_of :: "dict \<Rightarrow> string \<Rightarrow> string \<Rightarrow> jvalue option" where
  "input_of workflow node key =
     (case map_of workflow node of
        Some (JObj nd) \<Rightarrow>
          (case map_of nd ''inputs'' of Some (JObj ins) \<Rightarrow> map_of ins key | _ \<Rightarrow> None)
      | _ \<Rightarrow> None)"

text \<open>The fields of an \<open>image_gen\<close> request that have a default.\<close>

definition optional_fields :: "string list" where
  "optional_fields =
     [''negative_prompt'', ''width'', ''height'', ''seed'', ''steps'', ''cfg_scale'']"

subsection \<open>Paths\<close>

text \<open>
  \<open>str(Path(d) / name)\<close> on a POSIX machine. A path is a root and a list of parts:
  the parts are what lies between slashes, without the empty ones and without
  \<open>.\<close>; the root is \<open>//\<close> for exactly two leading slashes, \<open>/\<close> for any
  other number of them; a path with no root and no parts is written \<open>.\<close>. Joining
  an absolute \<open>name\<close> to \<open>d\<close> gives \<open>name\<close>.
\<close>

fun split_slash :: "string \<Rightarrow> string list" where
  "split_slash [] = [[]]"
| "split_slash (c # cs) =
     (if c = CHR ''/'' then [] # split_slash cs
      else (case split_slash cs of [] \<Rightarrow> [[c]] | x # xs \<Rightarrow> (c # x) # xs))"

definition path_parts :: "string \<Rightarrow> string list" where
  "path_parts s = filter (\<lambda>part. part \<noteq> [] \<and> part \<noteq> ''.'') (split_slash s)"

definition path_root :: "string \<Rightarrow> string" where
  "path_root s =
     (if take 2 s = ''//'' \<and> take 3 s \<noteq> ''///'' then ''//''
      else if take 1 s = ''/'' then ''/''
      else [])"

fun join_slash :: "string list \<Rightarrow> string" where
  "join_slash [] = []"
| "join_slash [x] = x"
| "join_slash (x # y # zs) = x @ ''/'' @ join_slash (y # zs)"

definition path_str :: "string \<Rightarrow> string list \<Rightarrow> string" where
  "path_str rt parts = (if rt = [] \<and> parts = [] then ''.'' else rt @ join_slash parts)"

definition path_div :: "string \<Rightarrow> string \<Rightarrow> string" where
  "path_div d name =
     (if take 1 name = ''/'' then path_str (path_root name) (path_parts name)
      else path_str (path_root d) (path_parts d @ path_parts name))"

text \<open>\<open>os.path.join(a, b)\<close> on a POSIX machine.\<close>

definition os_path_join :: "string \<Rightarrow> string \<Rightarrow> string" where
  "os_path_join a b =
     (if take 1 b = ''/'' then b
      else if a = [] \<or> last a = CHR ''/'' then a @ b
      else a @ ''/'' @ b)"

text \<open>\<open>sub in s\<close> on strings.\<close>

fun contains :: "string \<Rightarrow> string \<Rightarrow> bool" where
  "contains sub [] = (sub = [])"
| "contains sub (c # cs) = (take (length sub) (c # cs) = sub \<or> contains sub cs)"

definition hex_digit :: "nat \<Rightarrow> char" where
  "hex_digit n = ''0123456789abcdef'' ! n"

text \<open>The format \<open>:08x\<close> of a value below \<open>2 ** 32\<close>.\<close>

definition hex8 :: "32 word \<Rightarrow> string" where
  "hex8 w = map (\<lambda>i. hex_digit (unat w div 16 ^ i mod 16)) [7, 6, 5, 4, 3, 2, 1, 0]"

definition basename :: "string \<Rightarrow> string" where
  "basename path = rev (takeWhile (\<lambda>c. c \<noteq> CHR ''/'') (rev path))"

text \<open>\<open>_download_image\<close>; \<open>hash(url) & 0xFFFFFFFF\<close> is the hash reduced to 32 bits.\<close>

definition download_image :: "interp \<Rightarrow> host \<Rightarrow> jvalue \<Rightarrow> string \<Rightarrow> string \<Rightarrow> string result" where
  "download_image I H url dest_dir prefix =
     (case url of
        JStr u \<Rightarrow>
          (case http_get H u of
             Inl e \<Rightarrow> (Inl e, [Download u])
           | Inr (header, content) \<Rightarrow>
               (let content_type = (case header of None \<Rightarrow> ''image/png'' | Some t \<Rightarrow> t);
                    ext = (if contains ''jpeg'' content_type then ''jpg'' else ''png'');
                    filename = prefix @ ''_'' @ hex8 (word_of_int (hash_str I u)) @ ''.'' @ ext;
                    filepath = os_path_join dest_dir filename
                in case write_file H filepath content of
                     Some e \<Rightarrow> (Inl e, [Download u, WriteFile filepath])
                   | None \<Rightarrow> (Inr filepath, [Download u, WriteFile filepath])))
      | _ \<Rightarrow> (Inl (bad_url H url), []))"

definition inject_face_swap :: "interp \<Rightarrow> host \<Rightarrow> dict \<Rightarrow> dict \<Rightarrow> dict result" where
  "inject_face_swap I H workflow params =
     (case map_of params ''source_image'' of
        None \<Rightarrow> (Inl (KeyError ''source_image''), [])
      | Some source_url \<Rightarrow>
     (case map_of params ''target_image'' of
        None \<Rightarrow> (Inl (KeyError ''target_image''), [])
      | Some target_url \<Rightarrow>
     (let face_index = dget_or params ''face_index'' (JInt 0);
          restore_face = dget_or params ''restore_face'' (JBool True);
          input_dir = (case environ H ''COMFYUI_PATH'' of
                         None \<Rightarrow> ''/opt/comfyui'' | Some p \<Rightarrow> p) @ ''/input''
      in case makedirs H input_dir of
           Some e \<Rightarrow> (Inl e, [MakeDirs input_dir])
         | None \<Rightarrow>
     (case download_image I H source_url input_dir ''source_face'' of
        (Inl e, tr1) \<Rightarrow> (Inl e, MakeDirs input_dir # tr1)
      | (Inr source_path, tr1) \<Rightarrow>
     (case download_image I H target_url input_dir ''target_image'' of
        (Inl e, tr2) \<Rightarrow> (Inl e, MakeDirs input_dir # tr1 @ tr2)
      | (Inr target_path, tr2) \<Rightarrow>
          (inject_nodes workflow
             [(''1'', [(''image'', JStr (basename source_path))]),
              (''2'', [(''image'', JStr (basename target_path))]),
              (''10'', [(''input_faces_index'', JStr (py_str I face_index)),
                        (''console_log_level'', JInt 1)]
                       @ (if \<not> truthy restore_face
                          then [(''face_restore_model'', JStr ''none'')] else []))],
           MakeDirs input_dir # tr1 @ tr2))))))"

text \<open>
  \<open>WorkflowLoader.load\<close>. Looking an unhashable value up in \<open>WORKFLOW_MAP\<close> raises
  \<open>TypeError\<close>; any other value that is not one of its keys gives \<open>None\<close>. The
  template path is \<open>Path(workflow_dir) / filename\<close>.
\<close>

definition load :: "interp \<Rightarrow> host \<Rightarrow> 32 word \<Rightarrow> string \<Rightarrow> jvalue \<Rightarrow> dict \<Rightarrow> dict result" where
  "load I H rnd workflow_dir workflow_type params =
     (if \<not> hashable workflow_type then (Inl TypeError, [])
      else
        (case (case workflow_type of JStr t \<Rightarrow> map_of WORKFLOW_MAP t | _ \<Rightarrow> None) of
           None \<Rightarrow> (Inl (ValueError (''Unknown workflow type: '' @ py_str I workflow_type)), [])
         | Some filename \<Rightarrow>
             (let template_path = path_div workflow_dir filename
              in if \<not> path_exists H template_path
                 then (Inl (FileNotFoundError
                              (''Workflow template not found: '' @ template_path)), [])
                 else
                   (case read_json H template_path of
                      Inl e \<Rightarrow> (Inl e, [ReadTemplate template_path])
                    | Inr workflow \<Rightarrow>
                        if workflow_type = JStr ''image_gen'' then
                          (inject_image_gen rnd workflow params, [ReadTemplate template_path])
                        else if workflow_type = JStr ''face_swap'' then
                          (case inject_face_swap I H workflow params of
                             (r, tr) \<Rightarrow> (r, ReadTemplate template_path # tr))
                        else (Inr workflow, [ReadTemplate template_path])))))"

section \<open>Job orchestrator (handler.py)\<close>

text \<open>
  Everything outside the worker. \<open>uuid4 W n\<close> and \<open>randint W n\<close> are what
  \<open>str(uuid.uuid4())\<close> and \<open>random.randint(0, 2**32 - 1)\<close> return when they are
  called while the worker handles its \<open>n\<close>-th job; the handler calls each at most once
  per job.
\<close>

record world =
  py :: interp
  machine :: host
  render_engine :: engine
  store :: s3
  uuid4 :: "nat \<Rightarrow> string"
  randint :: "nat \<Rightarrow> 32 word"

definition WORKFLOW_DIR :: "host \<Rightarrow> string" where
  "WORKFLOW_DIR H =
     (case environ H ''WORKFLOW_DIR'' of None \<Rightarrow> ''/opt/handler/workflows'' | Some d \<Rightarrow> d)"

definition valid_types :: "string set" where
  "valid_types = {''image_gen'', ''face_swap''}"

text \<open>
  \<open>validate_input\<close>. The test \<open>workflow_type not in valid_types\<close> hashes its left
  side, so it raises \<open>TypeError\<close> on a list or a dict; a hashable value is in the set
  only if it is one of the two strings.
\<close>

definition validate_input :: "interp \<Rightarrow> dict \<Rightarrow> exn + bool \<times> string" where
  "validate_input I job_input =
     (let workflow_type = dget job_input ''workflow_type''
      in if \<not> truthy workflow_type then
           Inr (False, ''Missing required field: workflow_type'')
         else if \<not> hashable workflow_type then Inl TypeError
         else if workflow_type \<notin> JStr ` valid_types then
           Inr (False, ''Invalid workflow_type '' @ [CHR 0x27] @ py_str I workflow_type
                         @ [CHR 0x27] @ ''. Must be one of: '' @ str_set I valid_types)
         else if workflow_type = JStr ''image_gen''
                 \<and> \<not> truthy (dget job_input ''prompt'') then
           Inr (False, ''image_gen requires 'prompt' field'')
         else if workflow_type = JStr ''face_swap''
                 \<and> \<not> truthy (dget job_input ''source_image'') then
           Inr (False, ''face_swap requires 'source_image' field'')
         else if workflow_type = JStr ''face_swap''
                 \<and> \<not> truthy (dget job_input ''target_image'') then
           Inr (False, ''face_swap requires 'target_image' field'')
         else Inr (True, []))"

text \<open>The upload loop of the handler, from index \<open>i\<close> of \<open>enumerate(output_images)\<close>.\<close>

fun upload_all ::
  "interp \<Rightarrow> s3 \<Rightarrow> storage_client \<Rightarrow> jvalue \<Rightarrow> jvalue \<Rightarrow> nat \<Rightarrow> bytes list \<Rightarrow> string list result"
where
  "upload_all I S storage job_id workflow_type i [] = (Inr [], [])"
| "upload_all I S storage job_id workflow_type i (image_data # rest) =
     (let key = ''outputs/'' @ py_str I job_id @ ''/'' @ py_str I workflow_type @ ''_''
                  @ str_nat i @ ''.png''
      in case upload S storage image_data key ''image/png'' of
           (Inl e, tr) \<Rightarrow> (Inl e, tr)
         | (Inr url, tr) \<Rightarrow>
             (case upload_all I S storage job_id workflow_type (Suc i) rest of
                (Inl e, tr') \<Rightarrow> (Inl e, tr @ tr')
              | (Inr urls, tr') \<Rightarrow> (Inr (url # urls), tr @ tr')))"

text \<open>The body of the \<open>try\<close> block of \<open>handler\<close>, for the \<open>n\<close>-th job of the worker.\<close>

definition try_body :: "world \<Rightarrow> nat \<Rightarrow> dict \<Rightarrow> jvalue \<Rightarrow> jvalue \<Rightarrow> dict result" where
  "try_body W n job_input job_id workflow_type =
     (case load (py W) (machine W) (randint W n) (WORKFLOW_DIR (machine W))
             workflow_type job_input of
        (Inl e, tr1) \<Rightarrow> (Inl e, tr1)
      | (Inr workflow, tr1) \<Rightarrow>
          (let c = ComfyUIClient ''127.0.0.1'' (COMFYUI_PORT (machine W)) (uuid4 W n)
           in case execute_workflow (py W) (render_engine W) c workflow of
                (Inl e, tr2) \<Rightarrow> (Inl e, tr1 @ tr2)
              | (Inr output_images, tr2) \<Rightarrow>
                  if output_images = [] then
                    (Inr [(''error'', JStr ''Workflow produced no output images'')], tr1 @ tr2)
                  else
                    (case StorageClient (environ (machine W)) (store W) of
                       Inl e \<Rightarrow> (Inl e, tr1 @ tr2)
                     | Inr storage \<Rightarrow>
                         (case upload_all (py W) (store W) storage job_id workflow_type 0
                                 output_images of
                            (Inl e, tr3) \<Rightarrow> (Inl e, tr1 @ tr2 @ tr3)
                          | (Inr urls, tr3) \<Rightarrow>
                              (Inr [(''status'', JStr ''success''),
                                    (''output_urls'', JArr (map JStr urls)),
                                    (''workflow_type'', workflow_type),
                                    (''job_id'', job_id)],
                               tr1 @ tr2 @ tr3)))))"

text \<open>
  The message that the two \<open>except\<close> clauses of \<open>handler\<close> put in the envelope:
  a fixed one for a \<open>TimeoutError\<close>, \<open>str(e)\<close> for any other exception.
\<close>

definition failure_message :: "interp \<Rightarrow> exn \<Rightarrow> string" where
  "failure_message I e =
     (case e of TimeoutError m \<Rightarrow> ''Workflow execution timed out'' | _ \<Rightarrow> str_exn I e)"

text \<open>
  \<open>handler\<close>, for the \<open>n\<close>-th job of the worker. \<open>Inr\<close> is the dict it returns,
  \<open>Inl\<close> an exception that leaves it: what is raised before the \<open>try\<close> block is not
  caught.
\<close>

definition handler :: "world \<Rightarrow> nat \<Rightarrow> dict \<Rightarrow> dict result" where
  "handler W n job =
     (let job_input = dget_or job ''input'' (JObj []);
          job_id = dget_or job ''id'' (JStr ''unknown'')
      in case job_input of
           JObj inp \<Rightarrow>
             (case validate_input (py W) inp of
                Inl e \<Rightarrow> (Inl e, [])
              | Inr (valid, error) \<Rightarrow>
                  if \<not> valid then (Inr [(''error'', JStr error)], [])
                  else
                    (case map_of inp ''workflow_type'' of
                       None \<Rightarrow> (Inl (KeyError ''workflow_type''), [])
                     | Some workflow_type \<Rightarrow>
                         (case try_body W n inp job_id workflow_type of
                            (Inr envelope, tr) \<Rightarrow> (Inr envelope, tr)
                          | (Inl (TimeoutError m), tr) \<Rightarrow>
                              (Inr [(''error'', JStr ''Workflow execution timed out'')], tr)
                          | (Inl e, tr) \<Rightarrow> (Inr [(''error'', JStr (str_exn (py W) e))], tr))))
         | _ \<Rightarrow> (Inl AttributeError, []))"

text \<open>
  The platform calls \<open>handler\<close> once for each job it hands to the worker, one after the
  other: the \<open>n\<close>-th call is for the \<open>n\<close>-th job.
\<close>

definition serve :: "world \<Rightarrow> dict list \<Rightarrow> dict result list" where
  "serve W jobs = map (\<lambda>(n, job). handler W n job) (enumerate 0 jobs)"

text \<open>The client identifiers a run shows to the render engine, in order.\<close>

fun presented :: "action \<Rightarrow> string option" where
  "presented (PostPrompt workflow cid) = Some cid"
| "presented (WsConnect cid) = Some cid"
| "presented a = None"

definition client_ids :: "action list \<Rightarrow> string list" where
  "client_ids tr = List.map_filter presented tr"

text \<open>The two shapes of dict the handler returns.\<close>

fun is_error_envelope :: "dict \<Rightarrow> bool" where
  "is_error_envelope [(k, JStr message)] = (k = ''error'')"
| "is_error_envelope d = False"

fun is_success_envelope :: "dict \<Rightarrow> bool" where
  "is_success_envelope [(k1, status), (k2, JArr urls), (k3, workflow_type), (k4, job_id)] =
     (k1 = ''status'' \<and> status = JStr ''success'' \<and> k2 = ''output_urls''
      \<and> k3 = ''workflow_type'' \<and> k4 = ''job_id'')"
| "is_success_envelope d = False"

text \<open>
  The calls that \<open>handler\<close> makes for the \<open>n\<close>-th job with input \<open>inp\<close>: the
  load of the template, the run of a workflow by the client made for this job, and the
  upload loop.
\<close>

abbreviation load_for :: "world \<Rightarrow> nat \<Rightarrow> dict \<Rightarrow> dict result" where
  "load_for W n inp \<equiv>
     load (py W) (machine W) (randint W n) (WORKFLOW_DIR (machine W))
       (dget inp ''workflow_type'') inp"

abbreviation execute_for :: "world \<Rightarrow> nat \<Rightarrow> dict \<Rightarrow> bytes list result" where
  "execute_for W n workflow \<equiv>
     execute_workflow (py W) (render_engine W)
       (ComfyUIClient ''127.0.0.1'' (COMFYUI_PORT (machine W)) (uuid4 W n)) workflow"

abbreviation upload_for ::
  "world \<Rightarrow> storage_client \<Rightarrow> dict \<Rightarrow> dict \<Rightarrow> bytes list \<Rightarrow> string list result"
where
  "upload_for W storage job inp images \<equiv>
     upload_all (py W) (store W) storage (dget_or job ''id'' (JStr ''unknown''))
       (dget inp ''workflow_type'') 0 images"

definition presented_ids :: "dict result list \<Rightarrow> string list list" where
  "presented_ids rs = map (\<lambda>r. client_ids (snd r)) rs"

section \<open>Concrete inputs\<close>

text \<open>
  A worker whose render engine is reachable on the third liveness poll, accepts a
  submission as prompt \<open>p-1\<close>, reports two progress events and then completion, and has
  one output image; whose template has the four nodes of the image generation graph;
  and whose object store accepts every write.
\<close>

definition example_interp :: interp where
  "example_interp =
     \<lparr> repr_other = (\<lambda>v. ''<object>''),
       str_set = (\<lambda>A. ''{...}''),
       hash_str = (\<lambda>s. int (length s)),
       builtin_message = (\<lambda>e. ''error'') \<rparr>"

definition example_history :: jvalue where
  "example_history =
     JObj [(''p-1'', JObj [(''outputs'',
        JObj [(''9'', JObj [(''images'', JArr [JObj [(''filename'', JStr ''out.png'')]])])])])]"

definition example_engine :: engine where
  "example_engine =
     \<lparr> system_stats = (\<lambda>i. (500, if i < 2 then ConnectionError else Status 200)),
       post_prompt = (\<lambda>workflow cid. Inr (Some ''p-1'')),
       ws_open = (\<lambda>cid. Inr (frames_of [(1000, Progress ''p-1'' 1 20),
                                         (1000, Progress ''p-1'' 20 20),
                                         (500, Executing ''p-1'' None)],
                             LibError ''connection closed'')),
       wait_start = 0,
       get_history = (\<lambda>pid. Inr example_history),
       get_view = (\<lambda>filename subfolder img_type. Inr [1, 2, 3]) \<rparr>"

text \<open>An engine that accepts the connection of every liveness poll and then never answers.\<close>

definition stalled_engine :: engine where
  "stalled_engine =
     example_engine \<lparr> system_stats := (\<lambda>i. (5000, Failure (LibError ''Read timed out''))) \<rparr>"

definition example_template :: dict where
  "example_template =
     [(''3'', JObj [(''class_type'', JStr ''CLIPTextEncode''),
                    (''inputs'', JObj [(''text'', JStr [])])]),
      (''4'', JObj [(''class_type'', JStr ''CLIPTextEncode''),
                    (''inputs'', JObj [(''text'', JStr [])])]),
      (''5'', JObj [(''class_type'', JStr ''EmptyLatentImage''),
                    (''inputs'', JObj [(''width'', JInt 512), (''height'', JInt 512)])]),
      (''6'', JObj [(''class_type'', JStr ''KSampler''),
                    (''inputs'', JObj [(''seed'', JInt 0), (''steps'', JInt 20)])])]"

definition example_host :: host where
  "example_host =
     \<lparr> environ = map_of [(''S3_BUCKET'', ''results''), (''S3_ACCESS_KEY'', ''key''),
                          (''S3_SECRET_KEY'', ''secret'')],
       COMFYUI_PORT = 8188,
       path_exists = (\<lambda>path. True),
       read_json = (\<lambda>path. Inr example_template),
       makedirs = (\<lambda>path. None),
       http_get = (\<lambda>url. Inr (Some ''image/jpeg'', [0])),
       bad_url = (\<lambda>url. LibError ''Invalid URL''),
       write_file = (\<lambda>path content. None) \<rparr>"

definition example_s3 :: s3 where
  "example_s3 =
     \<lparr> boto3_client = None,
       put_object = (\<lambda>b key body content_type. None),
       generate_presigned_url = (\<lambda>b key ttl. Inr (''https://'' @ b @ ''/'' @ key)) \<rparr>"

text \<open>An object store that refuses every write.\<close>

definition failing_s3 :: s3 where
  "failing_s3 = example_s3 \<lparr> put_object := (\<lambda>b key body content_type. Some (LibError ''AccessDenied'')) \<rparr>"

definition example_world :: world where
  "example_world =
     \<lparr> py = example_interp,
       machine = example_host,
       render_engine = example_engine,
       store = example_s3,
       uuid4 = (\<lambda>n. ''client-'' @ str_nat n),
       randint = (\<lambda>n. 7) \<rparr>"

text \<open>
  The same worker with an engine that reports progress for 350 seconds and never
  completion.
\<close>

definition stuck_engine :: engine where
  "stuck_engine =
     example_engine \<lparr> ws_open := (\<lambda>cid. Inr (frames_of [(200000, Progress ''p-1'' 10 20),
                                                        (150000, Progress ''p-1'' 20 20)],
                                            LibError ''connection closed'')) \<rparr>"

definition stuck_world :: world where
  "stuck_world = example_world \<lparr> render_engine := stuck_engine \<rparr>"

text \<open>
  The same worker with an engine that reports progress once, 299 seconds after the wait
  began, and then nothing: the next receive blocks until the socket timeout that
  \<open>execute_workflow\<close> set on the connection, and raises the timeout exception of the
  websocket library, which is not a \<open>TimeoutError\<close>.
\<close>

definition silent_engine :: engine where
  "silent_engine =
     example_engine \<lparr> ws_open := (\<lambda>cid. Inr (frames_of [(299000, Progress ''p-1'' 10 20)],
                                             LibError ''Connection timed out'')) \<rparr>"

definition silent_world :: world where
  "silent_world = example_world \<lparr> render_engine := silent_engine \<rparr>"

definition example_job :: dict where
  "example_job = [(''id'', JStr ''job-1''),
                  (''input'', JObj [(''workflow_type'', JStr ''image_gen''),
                                    (''prompt'', JStr ''a kitchen'')])]"

section \<open>Properties of the execution client\<close>

subsection \<open>How the wait loop classifies an event\<close>

lemma timeout_message_eq: "timeout_message = ''Workflow execution exceeded 300s timeout''"
  by (simp add: timeout_message_def EXECUTION_TIMEOUT_def str_int_def str_nat.simps digit_def)

lemma on_message_progress:
  "on_message I (JStr pid)
     (JObj [(''type'', JStr ''progress''),
            (''data'', JObj [(''value'', JInt v), (''max'', JInt m), (''prompt_id'', JStr p)])])
   = Continue"
  by (simp add: on_message_def dget_def dget_or_def)

lemma on_message_executing:
  "on_message I (JStr pid)
     (JObj [(''type'', JStr ''executing''),
            (''data'', JObj [(''node'', case node of None \<Rightarrow> JNull | Some n \<Rightarrow> JStr n),
                             (''prompt_id'', JStr p)])])
   = (if p = pid \<and> node = None then Complete else Continue)"
  by (simp add: on_message_def dget_def dget_or_def split: option.splits)

lemma on_message_execution_error:
  "on_message I (JStr pid)
     (JObj [(''type'', JStr ''execution_error''),
            (''data'', JObj [(''prompt_id'', JStr p), (''node_id'', JStr node_id),
                             (''exception_message'', JStr message)])])
   = (if p = pid
      then Raise (RuntimeError (''ComfyUI execution error in node '' @ node_id @ '': '' @ message))
      else Continue)"
  by (simp add: on_message_def dget_def dget_or_def)

text \<open>An event that is not terminal for this job only lets the clock advance.\<close>

lemma wait_loop_ignored:
  assumes nt: "\<not> terminal pid ev"
  shows "wait_loop I E pid closing start now ((took, encode ev) # rest) =
     (if now - start < seconds EXECUTION_TIMEOUT
      then wait_loop I E pid closing start (now + int took) rest
      else (Inl (TimeoutError timeout_message), []))"
proof (cases ev)
  case (Executing p node)
  then show ?thesis
    using on_message_executing [of I pid node p] nt
    by (cases node) (auto simp: wait_loop.simps)
next
  case (Progress p v m)
  then show ?thesis by (simp add: on_message_progress wait_loop.simps)
next
  case (ExecutionError p node_id message)
  then show ?thesis using nt by (simp add: on_message_execution_error wait_loop.simps)
qed

lemma total_time_Cons: "total_time ((took, x) # xs) = int took + total_time xs"
  by (simp add: total_time_def)

lemma total_time_nonneg: "0 \<le> total_time xs"
  by (induction xs) (auto simp: total_time_def)

lemma wait_loop_skip:
  "\<forall>x\<in>set pre. \<not> terminal pid (snd x) \<Longrightarrow>
   now + total_time pre - start < seconds EXECUTION_TIMEOUT \<Longrightarrow>
   wait_loop I E pid closing start now (frames_of pre @ rest) =
   wait_loop I E pid closing start (now + total_time pre) rest"
proof (induction pre arbitrary: now)
  case Nil
  then show ?case by (simp add: frames_of_def total_time_def)
next
  case (Cons x pre)
  obtain took ev where x: "x = (took, ev)" by (cases x)
  have nt: "\<not> terminal pid ev" using Cons.prems(1) x by simp
  have tt: "total_time (x # pre) = int took + total_time pre" by (simp add: x total_time_Cons)
  have now_ok: "now - start < seconds EXECUTION_TIMEOUT"
    using Cons.prems(2) total_time_nonneg [of "x # pre"] by linarith
  have "wait_loop I E pid closing start now (frames_of (x # pre) @ rest) =
        wait_loop I E pid closing start now ((took, encode ev) # (frames_of pre @ rest))"
    by (simp add: frames_of_def x)
  also have "\<dots> = wait_loop I E pid closing start (now + int took) (frames_of pre @ rest)"
    using wait_loop_ignored [OF nt] now_ok by simp
  also have "\<dots> = wait_loop I E pid closing start (now + int took + total_time pre) rest"
    using Cons.prems tt by (intro Cons.IH) auto
  finally show ?case by (simp add: tt add.assoc)
qed

lemma wait_loop_progress_only:
  "\<forall>x\<in>set evs. is_progress (snd x) \<Longrightarrow>
   wait_loop I E pid closing start now (frames_of evs) =
     (Inl (if now + total_time evs - start < seconds EXECUTION_TIMEOUT then closing
           else TimeoutError timeout_message), [])"
proof (induction evs arbitrary: now)
  case Nil
  then show ?case by (simp add: frames_of_def total_time_def wait_loop.simps)
next
  case (Cons x evs)
  obtain took ev where x: "x = (took, ev)" by (cases x)
  from Cons.prems x obtain p v m where ev: "ev = Progress p v m" by (cases ev) auto
  have tt: "total_time (x # evs) = int took + total_time evs" by (simp add: x total_time_Cons)
  have IH: "wait_loop I E pid closing start (now + int took) (frames_of evs) =
     (Inl (if now + int took + total_time evs - start < seconds EXECUTION_TIMEOUT then closing
           else TimeoutError timeout_message), [])"
    using Cons.prems by (intro Cons.IH) auto
  have fr: "frames_of (x # evs) = (took, encode ev) # frames_of evs"
    by (simp add: frames_of_def x)
  show ?case
  proof (cases "now - start < seconds EXECUTION_TIMEOUT")
    case True
    then show ?thesis
      unfolding fr using wait_loop_ignored [of pid ev I E closing start now took "frames_of evs"] IH
      by (simp add: ev tt add.assoc)
  next
    case False
    moreover have "\<not> now + total_time (x # evs) - start < seconds EXECUTION_TIMEOUT"
      using False total_time_nonneg [of "x # evs"] by linarith
    ultimately show ?thesis
      unfolding fr using wait_loop_ignored [of pid ev I E closing start now took "frames_of evs"]
      by (simp add: ev)
  qed
qed

subsection \<open>Progress is never completion\<close>

text \<open>
  On a stream that delivers only \<open>Progress\<close> events, whatever their prompt id, value
  and maximum, the wait never completes: it returns no output images, never asks for
  the history record, and ends in a failure. When the events keep coming until the 300
  second deadline has passed, that failure is \<open>TimeoutError\<close>, with the message of
  the source; when the stream has no more frames before that, it is the exception of
  the receive.
\<close>

lemma progress_only_wait:
  assumes "\<forall>x\<in>set evs. is_progress (snd x)"
  shows "wait_for_completion I E (frames_of evs, closing) prompt_id =
     (Inl (if seconds EXECUTION_TIMEOUT \<le> total_time evs
           then TimeoutError ''Workflow execution exceeded 300s timeout''
           else closing), [])"
  using wait_loop_progress_only [OF assms, of I E prompt_id closing "wait_start E" "wait_start E"]
  by (simp add: wait_for_completion_def timeout_message_eq not_less)

lemma progress_until_deadline:
  "wait_for_completion example_interp example_engine
     (frames_of [(200000, Progress ''p-1'' 10 20), (150000, Progress ''p-1'' 20 20)],
      LibError ''connection closed'') ''p-1''
   = (Inl (TimeoutError ''Workflow execution exceeded 300s timeout''), [])"
  using progress_only_wait
    [of "[(200000, Progress ''p-1'' 10 20), (150000, Progress ''p-1'' 20 20)]"
        example_interp example_engine "LibError ''connection closed''" "''p-1''"]
  by (simp add: total_time_def seconds_def EXECUTION_TIMEOUT_def)

subsection \<open>A node error fails the run\<close>

text \<open>
  Claim C2. When the stream delivers, before the deadline and after events that are not
  terminal for this job, an \<open>ExecutionError\<close> event with this job's prompt id, the wait
  fails with a \<open>RuntimeError\<close> whose message names the node identifier and the error
  message of the event; nothing is fetched.
\<close>

theorem execution_error_reported:
  assumes "\<forall>x\<in>set pre. \<not> terminal prompt_id (snd x)"
    and "total_time pre < seconds EXECUTION_TIMEOUT"
  shows "wait_for_completion I E
           (frames_of pre @ (took, encode (ExecutionError prompt_id node_id message)) # rest,
            closing) prompt_id
         = (Inl (RuntimeError
                   (''ComfyUI execution error in node '' @ node_id @ '': '' @ message)), [])"
proof -
  let ?s = "wait_start E"
  have "wait_loop I E prompt_id closing ?s ?s
          (frames_of pre @ (took, encode (ExecutionError prompt_id node_id message)) # rest)
        = wait_loop I E prompt_id closing ?s (?s + total_time pre)
            ((took, encode (ExecutionError prompt_id node_id message)) # rest)"
    using assms by (intro wait_loop_skip) auto
  also have "\<dots> = (Inl (RuntimeError
                   (''ComfyUI execution error in node '' @ node_id @ '': '' @ message)), [])"
    using assms(2) by (simp add: wait_loop.simps on_message_execution_error)
  finally show ?thesis by (simp add: wait_for_completion_def)
qed

theorem execution_error_reported_witness:
  "wait_for_completion example_interp example_engine
     (frames_of [(1000, Progress ''p-1'' 1 20)]
        @ (1000, encode (ExecutionError ''p-1'' ''7'' ''bad seed''))
        # [(1000, encode (Executing ''p-1'' None))],
      LibError ''connection closed'') ''p-1''
   = (Inl (RuntimeError ''ComfyUI execution error in node 7: bad seed''), [])"
  using execution_error_reported
    [of "[(1000, Progress ''p-1'' 1 20)]" "''p-1''" example_interp example_engine
        1000 "''7''" "''bad seed''" "[(1000, encode (Executing ''p-1'' None))]"
        "LibError ''connection closed''"]
  by (simp add: total_time_def seconds_def EXECUTION_TIMEOUT_def)

subsection \<open>Events of other jobs\<close>

text \<open>
  Claim C3. An event of any of the three kinds whose prompt id is not this job's leaves
  the wait where it was: the loop goes on with the rest of the stream exactly as it
  would have without the event, only later by the time the receive took. The event
  neither completes the job, nor fails it, nor causes a fetch of outputs. (The deadline
  test at the head of the loop is made before the receive, whatever is received.)
\<close>

theorem foreign_event_ignored:
  assumes "event_prompt_id ev \<noteq> prompt_id"
  shows "wait_loop I E prompt_id closing start now ((took, encode ev) # rest) =
     (if now - start < seconds EXECUTION_TIMEOUT
      then wait_loop I E prompt_id closing start (now + int took) rest
      else (Inl (TimeoutError timeout_message), []))"
proof -
  have "\<not> terminal prompt_id ev" using assms by (cases ev) auto
  then show ?thesis by (rule wait_loop_ignored)
qed

theorem foreign_event_ignored_witness:
  "wait_loop example_interp example_engine ''p-1'' (LibError ''connection closed'') 0 0
     [(1000, encode (ExecutionError ''p-2'' ''7'' ''bad seed'')),
      (1000, encode (Executing ''p-2'' None))]
   = (Inl (LibError ''connection closed''), [])"
  using foreign_event_ignored
    [of "ExecutionError ''p-2'' ''7'' ''bad seed''" "''p-1''" example_interp example_engine
        "LibError ''connection closed''" 0 0 1000 "[(1000, encode (Executing ''p-2'' None))]"]
    foreign_event_ignored
    [of "Executing ''p-2'' None" "''p-1''" example_interp example_engine
        "LibError ''connection closed''" 0 1000 1000 "[]"]
  by (simp add: seconds_def EXECUTION_TIMEOUT_def wait_loop.simps)

subsection \<open>Readiness polling\<close>

lemma elapsed_0: "elapsed E i 0 = 0"
  by (simp add: elapsed_def)

lemma elapsed_Suc:
  "elapsed E i (Suc n) = int (fst (system_stats E i)) + seconds 2 + elapsed E (Suc i) n"
  unfolding elapsed_def by (subst sum.lessThan_Suc_shift) simp

lemma rounds_Suc: "rounds (Suc n) = GetSystemStats # Sleep (seconds 2) # rounds n"
  by (simp add: rounds_def)

text \<open>
  From poll \<open>i\<close> on, the loop makes some number \<open>n\<close> of unsuccessful polls, sleeping
  two seconds after each, and then stops in one of three ways: the deadline has passed
  and it returns \<open>False\<close>; poll \<open>i + n\<close> answers 200 and it returns \<open>True\<close>; poll
  \<open>i + n\<close> raises something else than a connection error, which leaves the function.
\<close>

lemma wait_ready_loop_outcome:
  "\<exists>n. (\<forall>j<n. unsuccessful (snd (system_stats E (i + j)))) \<and>
     (if now + elapsed E i n - start < seconds timeout then
        (case snd (system_stats E (i + n)) of
           Status code \<Rightarrow> code = 200 \<and>
             wait_ready_loop E timeout start i now = (Inr True, rounds n @ [GetSystemStats])
         | ConnectionError \<Rightarrow> False
         | Failure e \<Rightarrow>
             wait_ready_loop E timeout start i now = (Inl e, rounds n @ [GetSystemStats]))
      else wait_ready_loop E timeout start i now = (Inr False, rounds n))"
proof (induction E timeout start i now rule: wait_ready_loop.induct)
  case (1 E timeout start i now)
  let ?P = "\<lambda>i now n. (\<forall>j<n. unsuccessful (snd (system_stats E (i + j)))) \<and>
     (if now + elapsed E i n - start < seconds timeout then
        (case snd (system_stats E (i + n)) of
           Status code \<Rightarrow> code = 200 \<and>
             wait_ready_loop E timeout start i now = (Inr True, rounds n @ [GetSystemStats])
         | ConnectionError \<Rightarrow> False
         | Failure e \<Rightarrow>
             wait_ready_loop E timeout start i now = (Inl e, rounds n @ [GetSystemStats]))
      else wait_ready_loop E timeout start i now = (Inr False, rounds n))"
  obtain took p where sp: "system_stats E i = (took, p)" by (cases "system_stats E i")
  show ?case
  proof (cases "now - start < seconds timeout")
    case False
    then have "?P i now 0"
      by (simp add: elapsed_0 rounds_def wait_ready_loop.simps [of E timeout start i now])
    then show ?thesis by blast
  next
    case True
    show ?thesis
    proof (cases "unsuccessful p")
      case False
      then have "?P i now 0"
        using True sp
        by (cases p)
           (simp_all add: elapsed_0 rounds_def wait_ready_loop.simps [of E timeout start i now])
      then show ?thesis by blast
    next
      case uns: True
      let ?now' = "now + int took + seconds 2"
      have "\<exists>n. ?P (Suc i) ?now' n"
      proof (cases p)
        case (Status code)
        with uns have "code \<noteq> 200" by simp
        from "1.IH"(1) [OF True sp [symmetric] Status this] show ?thesis .
      next
        case ConnectionError
        from "1.IH"(2) [OF True sp [symmetric] ConnectionError] show ?thesis .
      next
        case (Failure e)
        with uns show ?thesis by simp
      qed
      then obtain n where n: "?P (Suc i) ?now' n" ..
      have step: "wait_ready_loop E timeout start i now =
         (case wait_ready_loop E timeout start (Suc i) ?now' of
            (r, tr) \<Rightarrow> (r, GetSystemStats # Sleep (seconds 2) # tr))"
        using True sp uns
        by (cases p) (simp_all add: wait_ready_loop.simps [of E timeout start i now])
      have el: "now + elapsed E i (Suc n) = ?now' + elapsed E (Suc i) n"
        by (simp add: elapsed_Suc sp)
      have all: "\<forall>j<Suc n. unsuccessful (snd (system_stats E (i + j)))"
      proof (intro allI impI)
        fix j assume "j < Suc n"
        show "unsuccessful (snd (system_stats E (i + j)))"
        proof (cases j)
          case 0
          then show ?thesis using sp uns by simp
        next
          case (Suc k)
          with \<open>j < Suc n\<close> n show ?thesis by simp
        qed
      qed
      have "?P i now (Suc n)"
        using n all unfolding el step
        by (auto simp: rounds_Suc split: poll.splits if_splits)
      then show ?thesis by blast
    qed
  qed
qed

text \<open>
  Claim C9, as stated, fails: when a liveness poll raises an exception that is not a
  \<open>requests.ConnectionError\<close> (the engine accepts the connection and does not answer
  within the five seconds of the request), \<open>wait_for_ready\<close> does not return
  \<open>False\<close>; the exception leaves it.
\<close>

theorem wait_for_ready_raises:
  "wait_for_ready stalled_engine 120 0 = (Inl (LibError ''Read timed out''), [GetSystemStats])"
  by (simp add: wait_for_ready_def stalled_engine_def example_engine_def seconds_def
        wait_ready_loop.simps [of _ 120 0 0 0])

text \<open>
  Claim C9, amended. For every timeout, \<open>wait_for_ready\<close> makes some number \<open>n\<close> of
  polls that answer with a status other than 200 or raise a connection error, sleeping
  two seconds after each of them, and then: returns \<open>False\<close> if the timeout has elapsed
  by then; otherwise polls once more and returns \<open>True\<close> if that poll answers 200, or
  lets the exception through if that poll raises anything but a connection error.
\<close>

theorem wait_for_ready_outcome:
  "\<exists>n. (\<forall>j<n. unsuccessful (snd (system_stats E j))) \<and>
     (if elapsed E 0 n < seconds timeout then
        (case snd (system_stats E n) of
           Status code \<Rightarrow> code = 200 \<and>
             wait_for_ready E timeout now = (Inr True, rounds n @ [GetSystemStats])
         | ConnectionError \<Rightarrow> False
         | Failure e \<Rightarrow> wait_for_ready E timeout now = (Inl e, rounds n @ [GetSystemStats]))
      else wait_for_ready E timeout now = (Inr False, rounds n))"
  unfolding wait_for_ready_def
  using wait_ready_loop_outcome [of E 0 now now timeout]
  by (simp only: add_0 add_diff_cancel_left')

theorem wait_for_ready_outcome_witness:
  "wait_for_ready example_engine 120 0
     = (Inr True, [GetSystemStats, Sleep 2000, GetSystemStats, Sleep 2000, GetSystemStats])
   \<and> wait_for_ready example_engine 4 0
     = (Inr False, [GetSystemStats, Sleep 2000, GetSystemStats, Sleep 2000])"
  using wait_for_ready_outcome [of example_engine 120 0]
        wait_for_ready_outcome [of example_engine 4 0]
  by (simp add: wait_for_ready_def example_engine_def seconds_def
        wait_ready_loop.simps [of _ _ 0 _ _])

section \<open>Properties of the template parameterizer\<close>

lemma map_of_dset: "map_of (dset d k v) k' = (if k' = k then Some v else map_of d k')"
  by (induction d) auto

lemma is_job_graph_node:
  "is_job_graph workflow \<Longrightarrow> map_of workflow n = Some v \<Longrightarrow> is_node v"
  by (force simp: is_job_graph_def list_all_iff dest: map_of_SomeD)

lemma is_node_cases:
  assumes "is_node v"
  obtains nd ins where "v = JObj nd" "map_of nd ''inputs'' = Some (JObj ins)"
  using assms by (cases v) (auto split: option.splits jvalue.splits)

lemma is_job_graph_dset:
  "is_job_graph workflow \<Longrightarrow> is_node v \<Longrightarrow> is_job_graph (dset workflow n v)"
  by (induction workflow) (auto simp: is_job_graph_def)

lemma set_input_effect:
  assumes g: "is_job_graph workflow" and h: "has_key workflow n"
  shows "\<exists>workflow'. set_input workflow n k v = Inr workflow' \<and> is_job_graph workflow'
           \<and> (\<forall>n'. has_key workflow' n' = has_key workflow n')
           \<and> (\<forall>n' k'. input_of workflow' n' k' =
                 (if n' = n \<and> k' = k then Some v else input_of workflow n' k'))"
proof -
  from h obtain x where x: "map_of workflow n = Some x" by (auto simp: has_key_def)
  from is_job_graph_node [OF g x] obtain nd ins
    where nd: "x = JObj nd" and ins: "map_of nd ''inputs'' = Some (JObj ins)"
    by (rule is_node_cases)
  let ?node = "JObj (dset nd ''inputs'' (JObj (dset ins k v)))"
  let ?w = "dset workflow n ?node"
  have 1: "set_input workflow n k v = Inr ?w" by (simp add: set_input_def x nd ins)
  have 2: "is_job_graph ?w" by (rule is_job_graph_dset [OF g]) (simp add: map_of_dset)
  have 3: "\<forall>n'. has_key ?w n' = has_key workflow n'"
    using x by (auto simp: has_key_def map_of_dset)
  have 4: "\<forall>n' k'. input_of ?w n' k' =
                 (if n' = n \<and> k' = k then Some v else input_of workflow n' k')"
    by (auto simp: input_of_def map_of_dset x nd ins)
  from 1 2 3 4 show ?thesis by blast
qed

lemma assign_all_effect:
  assumes "is_job_graph workflow" and "has_key workflow n"
  shows "\<exists>workflow'. assign_all workflow n kvs = Inr workflow' \<and> is_job_graph workflow'
           \<and> (\<forall>n'. has_key workflow' n' = has_key workflow n')
           \<and> (\<forall>n' k'. input_of workflow' n' k' =
                 (if n' = n \<and> k' \<in> fst ` set kvs then map_of (rev kvs) k'
                  else input_of workflow n' k'))"
  using assms
proof (induction kvs arbitrary: workflow)
  case Nil
  then show ?case by simp
next
  case (Cons kv kvs)
  obtain k v where kv: "kv = (k, v)" by (cases kv)
  from set_input_effect [OF Cons.prems, of k v] obtain w1 where
    w1: "set_input workflow n k v = Inr w1" "is_job_graph w1"
        "\<forall>n'. has_key w1 n' = has_key workflow n'"
        "\<forall>n' k'. input_of w1 n' k' =
                 (if n' = n \<and> k' = k then Some v else input_of workflow n' k')"
    by blast
  have h1: "has_key w1 n" using w1(3) Cons.prems(2) by simp
  from Cons.IH [OF w1(2) h1] obtain w2 where
    w2: "assign_all w1 n kvs = Inr w2" "is_job_graph w2"
        "\<forall>n'. has_key w2 n' = has_key w1 n'"
        "\<forall>n' k'. input_of w2 n' k' =
                 (if n' = n \<and> k' \<in> fst ` set kvs then map_of (rev kvs) k'
                  else input_of w1 n' k')"
    by blast
  have "assign_all workflow n (kv # kvs) = Inr w2" by (simp add: kv w1(1) w2(1))
  moreover have "\<forall>n'. has_key w2 n' = has_key workflow n'" using w1(3) w2(3) by simp
  moreover have "\<forall>n' k'. input_of w2 n' k' =
                 (if n' = n \<and> k' \<in> fst ` set (kv # kvs) then map_of (rev (kv # kvs)) k'
                  else input_of workflow n' k')"
  proof (intro allI)
    fix n' k'
    have none: "map_of (rev kvs) k' = None \<longleftrightarrow> k' \<notin> fst ` set kvs"
      by (simp add: map_of_eq_None_iff)
    show "input_of w2 n' k' =
                 (if n' = n \<and> k' \<in> fst ` set (kv # kvs) then map_of (rev (kv # kvs)) k'
                  else input_of workflow n' k')"
    proof (cases "k' \<in> fst ` set kvs")
      case True
      with none obtain y where "map_of (rev kvs) k' = Some y" by auto
      with True show ?thesis using w1(4) w2(4) by (simp add: kv map_add_def)
    next
      case False
      with none have "map_of (rev kvs) k' = None" by simp
      with False show ?thesis using w1(4) w2(4) by (auto simp: kv map_add_def)
    qed
  qed
  ultimately show ?case using w2(2) by blast
qed

lemma inject_node_effect:
  assumes "is_job_graph workflow"
  shows "\<exists>workflow'. inject_node workflow n kvs = Inr workflow' \<and> is_job_graph workflow'
           \<and> (\<forall>n'. has_key workflow' n' = has_key workflow n')
           \<and> (\<forall>n' k'. input_of workflow' n' k' =
                 (if n' = n \<and> has_key workflow n \<and> k' \<in> fst ` set kvs then map_of (rev kvs) k'
                  else input_of workflow n' k'))"
proof (cases "has_key workflow n")
  case True
  from assign_all_effect [OF assms True, of kvs] show ?thesis
    by (simp add: inject_node_def True)
next
  case False
  then show ?thesis using assms by (simp add: inject_node_def)
qed

text \<open>
  Claim C6. For a job graph and an \<open>image_gen\<close> request that has a prompt and none
  of the optional fields, \<open>_inject_image_gen\<close> returns a graph and raises nothing.
  In the graph, every slot whose node the template has holds the request's prompt or
  the default: the negative prompt of the source, width 1280, height 720, batch size 1,
  25 steps, cfg 7.5, and as seed the value drawn by \<open>random.randint\<close>, which lies
  in the range from 0 up to, not including, \<open>2 ^ 32\<close>.
\<close>

theorem image_gen_defaults:
  assumes g: "is_job_graph workflow"
    and p: "map_of params ''prompt'' = Some prompt"
    and opt: "\<forall>k\<in>set optional_fields. map_of params k = None"
  shows "\<exists>workflow'. inject_image_gen rnd workflow params = Inr workflow'
     \<and> (has_key workflow ''3'' \<longrightarrow> input_of workflow' ''3'' ''text'' = Some prompt)
     \<and> (has_key workflow ''4'' \<longrightarrow>
          input_of workflow' ''4'' ''text'' = Some (JStr ''blurry, low quality, watermark, text''))
     \<and> (has_key workflow ''5'' \<longrightarrow>
          input_of workflow' ''5'' ''width'' = Some (JInt 1280)
          \<and> input_of workflow' ''5'' ''height'' = Some (JInt 720)
          \<and> input_of workflow' ''5'' ''batch_size'' = Some (JInt 1))
     \<and> (has_key workflow ''6'' \<longrightarrow>
          input_of workflow' ''6'' ''seed'' = Some (JInt (uint rnd))
          \<and> 0 \<le> uint rnd \<and> uint rnd < 2 ^ 32
          \<and> input_of workflow' ''6'' ''steps'' = Some (JInt 25)
          \<and> input_of workflow' ''6'' ''cfg'' = Some (JFloat (15 / 2)))"
proof -
  let ?b3 = "[(''text'', prompt)]"
  let ?b4 = "[(''text'', JStr ''blurry, low quality, watermark, text'')]"
  let ?b5 = "[(''width'', JInt 1280), (''height'', JInt 720), (''batch_size'', JInt 1)]"
  let ?b6 = "[(''seed'', JInt (uint rnd)), (''steps'', JInt 25), (''cfg'', JFloat (15 / 2))]"
  have unfold: "inject_image_gen rnd workflow params =
      inject_nodes workflow [(''3'', ?b3), (''4'', ?b4), (''5'', ?b5), (''6'', ?b6)]"
    using p opt by (simp add: inject_image_gen_def dget_or_def optional_fields_def)
  from inject_node_effect [OF g, of "''3''" ?b3] obtain w1 where
    w1: "inject_node workflow ''3'' ?b3 = Inr w1" "is_job_graph w1"
        "\<forall>n'. has_key w1 n' = has_key workflow n'"
        "\<forall>n' k'. input_of w1 n' k' =
           (if n' = ''3'' \<and> has_key workflow ''3'' \<and> k' \<in> fst ` set ?b3
            then map_of (rev ?b3) k' else input_of workflow n' k')"
    by blast
  from inject_node_effect [OF w1(2), of "''4''" ?b4] obtain w2 where
    w2: "inject_node w1 ''4'' ?b4 = Inr w2" "is_job_graph w2"
        "\<forall>n'. has_key w2 n' = has_key w1 n'"
        "\<forall>n' k'. input_of w2 n' k' =
           (if n' = ''4'' \<and> has_key w1 ''4'' \<and> k' \<in> fst ` set ?b4
            then map_of (rev ?b4) k' else input_of w1 n' k')"
    by blast
  from inject_node_effect [OF w2(2), of "''5''" ?b5] obtain w3 where
    w3: "inject_node w2 ''5'' ?b5 = Inr w3" "is_job_graph w3"
        "\<forall>n'. has_key w3 n' = has_key w2 n'"
        "\<forall>n' k'. input_of w3 n' k' =
           (if n' = ''5'' \<and> has_key w2 ''5'' \<and> k' \<in> fst ` set ?b5
            then map_of (rev ?b5) k' else input_of w2 n' k')"
    by blast
  from inject_node_effect [OF w3(2), of "''6''" ?b6] obtain w4 where
    w4: "inject_node w3 ''6'' ?b6 = Inr w4" "is_job_graph w4"
        "\<forall>n'. has_key w4 n' = has_key w3 n'"
        "\<forall>n' k'. input_of w4 n' k' =
           (if n' = ''6'' \<and> has_key w3 ''6'' \<and> k' \<in> fst ` set ?b6
            then map_of (rev ?b6) k' else input_of w3 n' k')"
    by blast
  have res: "inject_image_gen rnd workflow params = Inr w4"
    by (simp add: unfold w1(1) w2(1) w3(1) w4(1))
  have k: "has_key w1 n = has_key workflow n" "has_key w2 n = has_key workflow n"
          "has_key w3 n = has_key workflow n" for n
    using w1(3) w2(3) w3(3) by simp_all
  have i3: "has_key workflow ''3'' \<Longrightarrow> input_of w4 ''3'' ''text'' = Some prompt"
    by (simp add: w4(4) w3(4) w2(4) w1(4))
  have i4: "has_key workflow ''4'' \<Longrightarrow>
      input_of w4 ''4'' ''text'' = Some (JStr ''blurry, low quality, watermark, text'')"
    by (simp add: w4(4) w3(4) w2(4) k)
  have i5: "has_key workflow ''5'' \<Longrightarrow>
          input_of w4 ''5'' ''width'' = Some (JInt 1280)
          \<and> input_of w4 ''5'' ''height'' = Some (JInt 720)
          \<and> input_of w4 ''5'' ''batch_size'' = Some (JInt 1)"
    by (simp add: w4(4) w3(4) k)
  have i6: "has_key workflow ''6'' \<Longrightarrow>
          input_of w4 ''6'' ''seed'' = Some (JInt (uint rnd))
          \<and> input_of w4 ''6'' ''steps'' = Some (JInt 25)
          \<and> input_of w4 ''6'' ''cfg'' = Some (JFloat (15 / 2))"
    by (simp add: w4(4) k)
  have bound: "0 \<le> uint rnd \<and> uint rnd < 2 ^ 32"
    using uint_lt2p [of rnd] by simp
  from res i3 i4 i5 i6 bound show ?thesis by blast
qed

theorem image_gen_defaults_witness:
  "inject_image_gen 7 example_template
     [(''workflow_type'', JStr ''image_gen''), (''prompt'', JStr ''a kitchen'')]
   = Inr [(''3'', JObj [(''class_type'', JStr ''CLIPTextEncode''),
                        (''inputs'', JObj [(''text'', JStr ''a kitchen'')])]),
          (''4'', JObj [(''class_type'', JStr ''CLIPTextEncode''),
                        (''inputs'', JObj [(''text'',
                           JStr ''blurry, low quality, watermark, text'')])]),
          (''5'', JObj [(''class_type'', JStr ''EmptyLatentImage''),
                        (''inputs'', JObj [(''width'', JInt 1280), (''height'', JInt 720),
                                           (''batch_size'', JInt 1)])]),
          (''6'', JObj [(''class_type'', JStr ''KSampler''),
                        (''inputs'', JObj [(''seed'', JInt 7), (''steps'', JInt 25),
                                           (''cfg'', JFloat (15 / 2))])])]"
  using image_gen_defaults
    [of example_template "[(''workflow_type'', JStr ''image_gen''), (''prompt'', JStr ''a kitchen'')]"
        "JStr ''a kitchen''" 7]
  by (simp add: inject_image_gen_def example_template_def dget_or_def inject_node_def
        has_key_def set_input_def)

section \<open>Properties of the artifact publisher\<close>

text \<open>
  Claim C7. \<open>upload\<close> returns a URL only when \<open>put_object\<close> for that key did not
  raise, and then it has asked for the presigned URL after the write. When
  \<open>put_object\<close> raises, \<open>upload\<close> raises the same exception and has made no other
  request: no URL is asked for.
\<close>

theorem upload_url_only_after_write:
  "(\<forall>url tr. upload S sc data key content_type = (Inr url, tr) \<longrightarrow>
       put_object S (bucket sc) key data content_type = None
       \<and> tr = [PutObject (bucket sc) key, PresignUrl (bucket sc) key])
   \<and> (\<forall>e. put_object S (bucket sc) key data content_type = Some e \<longrightarrow>
       upload S sc data key content_type = (Inl e, [PutObject (bucket sc) key]))"
  by (auto simp: upload_def split: option.splits sum.splits)

theorem upload_url_only_after_write_witness:
  "upload failing_s3 \<lparr> bucket = ''results'', endpoint = None, region = ''auto'' \<rparr>
     [1, 2, 3] ''outputs/job-1/image_gen_0.png'' ''image/png''
   = (Inl (LibError ''AccessDenied''), [PutObject ''results'' ''outputs/job-1/image_gen_0.png''])
   \<and> upload example_s3 \<lparr> bucket = ''results'', endpoint = None, region = ''auto'' \<rparr>
     [1, 2, 3] ''outputs/job-1/image_gen_0.png'' ''image/png''
   = (Inr ''https://results/outputs/job-1/image_gen_0.png'',
      [PutObject ''results'' ''outputs/job-1/image_gen_0.png'',
       PresignUrl ''results'' ''outputs/job-1/image_gen_0.png''])"
  using upload_url_only_after_write
    [of failing_s3 "\<lparr> bucket = ''results'', endpoint = None, region = ''auto'' \<rparr>"
        "[1, 2, 3]" "''outputs/job-1/image_gen_0.png''" "''image/png''"]
    upload_url_only_after_write
    [of example_s3 "\<lparr> bucket = ''results'', endpoint = None, region = ''auto'' \<rparr>"
        "[1, 2, 3]" "''outputs/job-1/image_gen_0.png''" "''image/png''"]
  by (simp add: upload_def failing_s3_def example_s3_def)

section \<open>Properties of the job orchestrator\<close>

subsection \<open>Validation and the two envelopes\<close>

lemma validate_input_total:
  assumes "\<not> truthy (dget inp ''workflow_type'') \<or> hashable (dget inp ''workflow_type'')"
  shows "\<exists>valid message. validate_input I inp = Inr (valid, message)"
  using assms by (auto simp: validate_input_def Let_def)

lemma validate_input_valid:
  assumes "validate_input I inp = Inr (True, message)"
  shows "\<exists>t. map_of inp ''workflow_type'' = Some (JStr t) \<and> t \<in> valid_types"
  using assms
  by (auto simp: validate_input_def Let_def dget_def split: if_splits option.splits)

lemma handler_invalid:
  assumes "dget_or job ''input'' (JObj []) = JObj inp"
    and "validate_input (py W) inp = Inr (False, message)"
  shows "handler W n job = (Inr [(''error'', JStr message)], [])"
  using assms by (simp add: handler_def)

lemma try_body_envelope:
  assumes "try_body W n inp job_id workflow_type = (Inr envelope, tr)"
  shows "is_success_envelope envelope
         \<or> envelope = [(''error'', JStr ''Workflow produced no output images'')]"
  using assms
  by (auto simp: try_body_def Let_def split: prod.splits sum.splits if_splits)

lemma handler_valid:
  assumes "dget_or job ''input'' (JObj []) = JObj inp"
    and "validate_input (py W) inp = Inr (True, message)"
    and "map_of inp ''workflow_type'' = Some workflow_type"
  shows "handler W n job =
     (case try_body W n inp (dget_or job ''id'' (JStr ''unknown'')) workflow_type of
        (Inr envelope, tr) \<Rightarrow> (Inr envelope, tr)
      | (Inl e, tr) \<Rightarrow>
          (Inr [(''error'', JStr (case e of TimeoutError m \<Rightarrow> ''Workflow execution timed out''
                                    | _ \<Rightarrow> str_exn (py W) e))], tr))"
  using assms by (simp add: handler_def split: prod.splits sum.splits exn.splits)

lemma not_truthy_dget:
  "map_of inp k = None \<Longrightarrow> \<not> truthy (dget inp k)"
  "map_of inp k = Some (JStr []) \<Longrightarrow> \<not> truthy (dget inp k)"
  by (simp_all add: dget_def)

text \<open>
  A request that validation rejects is answered with an error envelope, and nothing is
  asked of the template store, the render engine or the object store.
\<close>

lemma invalid_request_rejected:
  assumes "dget_or job ''input'' (JObj []) = JObj inp"
    and "\<not> truthy (dget inp ''workflow_type'') \<or> hashable (dget inp ''workflow_type'')"
    and "dget inp ''workflow_type'' \<notin> JStr ` valid_types
         \<or> dget inp ''workflow_type'' = JStr ''image_gen'' \<and> \<not> truthy (dget inp ''prompt'')
         \<or> dget inp ''workflow_type'' = JStr ''face_swap''
             \<and> (\<not> truthy (dget inp ''source_image'') \<or> \<not> truthy (dget inp ''target_image''))"
  shows "\<exists>message. handler W n job = (Inr [(''error'', JStr message)], [])"
proof -
  from assms(2,3) have "\<exists>message. validate_input (py W) inp = Inr (False, message)"
    by (auto simp: validate_input_def Let_def)
  then show ?thesis using handler_invalid [OF assms(1)] by blast
qed

subsection \<open>A worked run\<close>

lemma example_template_path:
  "path_div ''/opt/handler/workflows'' ''flux_image_gen.json''
   = ''/opt/handler/workflows/flux_image_gen.json''"
  by (simp add: path_div_def path_str_def path_root_def path_parts_def)

lemma example_load:
  "load I example_host 7 ''/opt/handler/workflows'' (JStr ''image_gen'')
     [(''workflow_type'', JStr ''image_gen''), (''prompt'', JStr ''a kitchen'')]
   = (Inr [(''3'', JObj [(''class_type'', JStr ''CLIPTextEncode''),
                        (''inputs'', JObj [(''text'', JStr ''a kitchen'')])]),
          (''4'', JObj [(''class_type'', JStr ''CLIPTextEncode''),
                        (''inputs'', JObj [(''text'',
                           JStr ''blurry, low quality, watermark, text'')])]),
          (''5'', JObj [(''class_type'', JStr ''EmptyLatentImage''),
                        (''inputs'', JObj [(''width'', JInt 1280), (''height'', JInt 720),
                                           (''batch_size'', JInt 1)])]),
          (''6'', JObj [(''class_type'', JStr ''KSampler''),
                        (''inputs'', JObj [(''seed'', JInt 7), (''steps'', JInt 25),
                                           (''cfg'', JFloat (15 / 2))])])],
      [ReadTemplate ''/opt/handler/workflows/flux_image_gen.json''])"
  by (simp add: load_def WORKFLOW_MAP_def example_template_path example_host_def
        inject_image_gen_def example_template_def dget_or_def inject_node_def
        has_key_def set_input_def)

lemma example_execute:
  "execute_workflow example_interp example_engine c workflow
   = (Inr [[1, 2, 3]],
      [PostPrompt workflow (client_id c), WsConnect (client_id c), GetHistory ''p-1'',
       GetView (JStr ''out.png'') (JStr []) (JStr ''output''), WsClose])"
  by (simp add: execute_workflow_def queue_prompt_def example_engine_def wait_for_completion_def
        frames_of_def wait_loop.simps on_message_def dget_def dget_or_def seconds_def
        EXECUTION_TIMEOUT_def fetch_outputs_def example_history_def)

lemma example_upload_all:
  "upload_all example_interp example_s3 \<lparr> bucket = ''results'', endpoint = None, region = ''auto'' \<rparr>
     (JStr ''job-1'') (JStr ''image_gen'') 0 [[1, 2, 3]]
   = (Inr [''https://results/outputs/job-1/image_gen_0.png''],
      [PutObject ''results'' ''outputs/job-1/image_gen_0.png'',
       PresignUrl ''results'' ''outputs/job-1/image_gen_0.png''])"
  by (simp add: upload_def example_s3_def str_nat.simps digit_def Let_def)

lemma example_workflow_dir: "WORKFLOW_DIR example_host = ''/opt/handler/workflows''"
  by (simp add: WORKFLOW_DIR_def example_host_def)

lemma example_storage:
  "StorageClient (environ example_host) example_s3
   = Inr \<lparr> bucket = ''results'', endpoint = None, region = ''auto'' \<rparr>"
  by (simp add: StorageClient_def example_host_def example_s3_def)

lemma example_run:
  "handler example_world n example_job =
   (Inr [(''status'', JStr ''success''),
         (''output_urls'', JArr [JStr ''https://results/outputs/job-1/image_gen_0.png'']),
         (''workflow_type'', JStr ''image_gen''),
         (''job_id'', JStr ''job-1'')],
    [ReadTemplate ''/opt/handler/workflows/flux_image_gen.json'',
     PostPrompt
       [(''3'', JObj [(''class_type'', JStr ''CLIPTextEncode''),
                        (''inputs'', JObj [(''text'', JStr ''a kitchen'')])]),
          (''4'', JObj [(''class_type'', JStr ''CLIPTextEncode''),
                        (''inputs'', JObj [(''text'',
                           JStr ''blurry, low quality, watermark, text'')])]),
          (''5'', JObj [(''class_type'', JStr ''EmptyLatentImage''),
                        (''inputs'', JObj [(''width'', JInt 1280), (''height'', JInt 720),
                                           (''batch_size'', JInt 1)])]),
          (''6'', JObj [(''class_type'', JStr ''KSampler''),
                        (''inputs'', JObj [(''seed'', JInt 7), (''steps'', JInt 25),
                                           (''cfg'', JFloat (15 / 2))])])]
       (''client-'' @ str_nat n),
     WsConnect (''client-'' @ str_nat n), GetHistory ''p-1'',
     GetView (JStr ''out.png'') (JStr []) (JStr ''output''), WsClose,
     PutObject ''results'' ''outputs/job-1/image_gen_0.png'',
     PresignUrl ''results'' ''outputs/job-1/image_gen_0.png''])"
  by (simp add: handler_def example_job_def dget_or_def dget_def validate_input_def valid_types_def
        try_body_def example_world_def example_workflow_dir example_load example_execute
        example_storage example_upload_all ComfyUIClient_def Let_def del: upload_all.simps)

lemma stuck_execute:
  "execute_workflow example_interp stuck_engine c workflow
   = (Inl (TimeoutError ''Workflow execution exceeded 300s timeout''),
      [PostPrompt workflow (client_id c), WsConnect (client_id c), WsClose])"
  by (simp add: execute_workflow_def queue_prompt_def stuck_engine_def example_engine_def
        wait_for_completion_def frames_of_def wait_loop.simps on_message_def dget_def
        dget_or_def seconds_def EXECUTION_TIMEOUT_def timeout_message_eq)

subsection \<open>The deadline and a silent stream\<close>

lemma silent_execute:
  "execute_workflow example_interp silent_engine c workflow
   = (Inl (LibError ''Connection timed out''),
      [PostPrompt workflow (client_id c), WsConnect (client_id c), WsClose])"
  by (simp add: execute_workflow_def queue_prompt_def silent_engine_def example_engine_def
        wait_for_completion_def frames_of_def wait_loop.simps on_message_def dget_def
        dget_or_def seconds_def EXECUTION_TIMEOUT_def)

text \<open>
  Claim C1 says that every stream of \<open>Progress\<close> events alone makes the run fail
  with the execution timeout. The loop tests the deadline only before each receive.
  When one progress event arrives 299 seconds after the wait began and nothing follows,
  the loop is inside a receive when the deadline passes; that receive ends with the
  exception of the websocket library, not with \<open>TimeoutError\<close>. The run does not
  complete, but it does not fail with the execution timeout either: the wait raises the
  exception of the receive, and \<open>handler\<close> answers with its message, not with
  \<open>Workflow execution timed out\<close>. The source's comment on
  \<open>EXECUTION_TIMEOUT\<close> calls it the maximum of five minutes for a workflow.
\<close>

theorem silent_stream_not_timeout:
  "wait_for_completion example_interp silent_engine
     (frames_of [(299000, Progress ''p-1'' 10 20)], LibError ''Connection timed out'') ''p-1''
   = (Inl (LibError ''Connection timed out''), [])
   \<and> fst (handler silent_world 0 example_job)
     = Inr [(''error'', JStr ''Connection timed out'')]"
  by (simp add: wait_for_completion_def frames_of_def wait_loop.simps on_message_def
        dget_def dget_or_def seconds_def EXECUTION_TIMEOUT_def silent_engine_def
        example_engine_def)
     (simp add: handler_def example_job_def dget_or_def dget_def validate_input_def
        valid_types_def try_body_def silent_world_def example_world_def example_workflow_dir
        example_load silent_execute ComfyUIClient_def Let_def)

subsection \<open>Failure envelopes\<close>

lemma failure_message_simps:
  "failure_message I (TimeoutError m) = ''Workflow execution timed out''"
  "failure_message I (RuntimeError m) = m"
  by (simp_all add: failure_message_def)

text \<open>
  Claim C4, as stated, fails: the envelope of a failed job has the single field
  \<open>error\<close> and no \<open>status\<close> field. Here the request has no \<open>workflow_type\<close>.
\<close>

theorem error_envelope_without_status:
  "handler example_world 0 [(''id'', JStr ''job-2''), (''input'', JObj [(''prompt'', JStr ''test'')])]
     = (Inr [(''error'', JStr ''Missing required field: workflow_type'')], [])
   \<and> map_of [(''error'', JStr ''Missing required field: workflow_type'')] ''status'' = None"
  by (simp add: handler_def dget_or_def dget_def validate_input_def)

text \<open>
  Claim C4, amended. For every job whose \<open>input\<close> is a dict and whose
  \<open>workflow_type\<close> is not a non-empty list or dict, validation raises nothing, and
  every failing job gets an envelope with the single field \<open>error\<close> and no
  \<open>status\<close> field: a request that validation rejects gets the message of the
  validation and nothing is requested; an exception raised while the template is loaded,
  while the workflow is executed, when the storage client is made or during an upload
  gets \<open>Workflow execution timed out\<close> if it is a \<open>TimeoutError\<close> and its own
  text otherwise (for a node error, the text that names the node); a run that
  returns no image gets \<open>Workflow produced no output images\<close>. Only a job for which
  every step succeeds gets the success envelope.
\<close>

theorem handler_envelopes:
  assumes inp: "dget_or job ''input'' (JObj []) = JObj inp"
    and wt: "\<not> truthy (dget inp ''workflow_type'') \<or> hashable (dget inp ''workflow_type'')"
  shows "(\<exists>valid message. validate_input (py W) inp = Inr (valid, message))
    \<and> (\<forall>m. failure_message (py W) (TimeoutError m) = ''Workflow execution timed out'')
    \<and> (\<forall>m. failure_message (py W) (RuntimeError m) = m)
    \<and> (\<forall>message. validate_input (py W) inp = Inr (False, message) \<longrightarrow>
          handler W n job = (Inr [(''error'', JStr message)], []))
    \<and> (\<forall>message. validate_input (py W) inp = Inr (True, message) \<longrightarrow>
         (\<forall>e tr1. load_for W n inp = (Inl e, tr1) \<longrightarrow>
            handler W n job = (Inr [(''error'', JStr (failure_message (py W) e))], tr1))
       \<and> (\<forall>workflow tr1. load_for W n inp = (Inr workflow, tr1) \<longrightarrow>
            (\<forall>e tr2. execute_for W n workflow = (Inl e, tr2) \<longrightarrow>
               handler W n job
                 = (Inr [(''error'', JStr (failure_message (py W) e))], tr1 @ tr2))
          \<and> (\<forall>tr2. execute_for W n workflow = (Inr [], tr2) \<longrightarrow>
               handler W n job
                 = (Inr [(''error'', JStr ''Workflow produced no output images'')], tr1 @ tr2))
          \<and> (\<forall>images tr2. execute_for W n workflow = (Inr images, tr2) \<and> images \<noteq> [] \<longrightarrow>
               (\<forall>e. StorageClient (environ (machine W)) (store W) = Inl e \<longrightarrow>
                  handler W n job
                    = (Inr [(''error'', JStr (failure_message (py W) e))], tr1 @ tr2))
             \<and> (\<forall>storage. StorageClient (environ (machine W)) (store W) = Inr storage \<longrightarrow>
                  (\<forall>e tr3. upload_for W storage job inp images = (Inl e, tr3) \<longrightarrow>
                     handler W n job
                       = (Inr [(''error'', JStr (failure_message (py W) e))], tr1 @ tr2 @ tr3))
                \<and> (\<forall>urls tr3. upload_for W storage job inp images = (Inr urls, tr3) \<longrightarrow>
                     handler W n job
                       = (Inr [(''status'', JStr ''success''),
                               (''output_urls'', JArr (map JStr urls)),
                               (''workflow_type'', dget inp ''workflow_type''),
                               (''job_id'', dget_or job ''id'' (JStr ''unknown''))],
                          tr1 @ tr2 @ tr3))))))"
proof -
  have total: "\<exists>valid message. validate_input (py W) inp = Inr (valid, message)"
    by (rule validate_input_total [OF wt])
  have rejected: "handler W n job = (Inr [(''error'', JStr message)], [])"
    if "validate_input (py W) inp = Inr (False, message)" for message
    using that by (rule handler_invalid [OF inp])
  have accepted:
    "(\<forall>e tr1. load_for W n inp = (Inl e, tr1) \<longrightarrow>
            handler W n job = (Inr [(''error'', JStr (failure_message (py W) e))], tr1))
       \<and> (\<forall>workflow tr1. load_for W n inp = (Inr workflow, tr1) \<longrightarrow>
            (\<forall>e tr2. execute_for W n workflow = (Inl e, tr2) \<longrightarrow>
               handler W n job
                 = (Inr [(''error'', JStr (failure_message (py W) e))], tr1 @ tr2))
          \<and> (\<forall>tr2. execute_for W n workflow = (Inr [], tr2) \<longrightarrow>
               handler W n job
                 = (Inr [(''error'', JStr ''Workflow produced no output images'')], tr1 @ tr2))
          \<and> (\<forall>images tr2. execute_for W n workflow = (Inr images, tr2) \<and> images \<noteq> [] \<longrightarrow>
               (\<forall>e. StorageClient (environ (machine W)) (store W) = Inl e \<longrightarrow>
                  handler W n job
                    = (Inr [(''error'', JStr (failure_message (py W) e))], tr1 @ tr2))
             \<and> (\<forall>storage. StorageClient (environ (machine W)) (store W) = Inr storage \<longrightarrow>
                  (\<forall>e tr3. upload_for W storage job inp images = (Inl e, tr3) \<longrightarrow>
                     handler W n job
                       = (Inr [(''error'', JStr (failure_message (py W) e))], tr1 @ tr2 @ tr3))
                \<and> (\<forall>urls tr3. upload_for W storage job inp images = (Inr urls, tr3) \<longrightarrow>
                     handler W n job
                       = (Inr [(''status'', JStr ''success''),
                               (''output_urls'', JArr (map JStr urls)),
                               (''workflow_type'', dget inp ''workflow_type''),
                               (''job_id'', dget_or job ''id'' (JStr ''unknown''))],
                          tr1 @ tr2 @ tr3)))))"
    if v: "validate_input (py W) inp = Inr (True, message)" for message
  proof -
    from validate_input_valid [OF v] obtain t
      where t: "map_of inp ''workflow_type'' = Some (JStr t)" by blast
    then have d: "dget inp ''workflow_type'' = JStr t" by (simp add: dget_def)
    have h: "handler W n job =
       (case try_body W n inp (dget_or job ''id'' (JStr ''unknown'')) (JStr t) of
          (Inr envelope, tr) \<Rightarrow> (Inr envelope, tr)
        | (Inl e, tr) \<Rightarrow> (Inr [(''error'', JStr (failure_message (py W) e))], tr))"
      unfolding failure_message_def by (rule handler_valid [OF inp v t])
    show ?thesis
      unfolding h d try_body_def Let_def
      by (intro conjI allI impI) simp_all
  qed
  show ?thesis
    using total rejected accepted failure_message_simps [of "py W"] by blast
qed

theorem handler_envelopes_witness:
  "handler stuck_world 0 example_job
   = (Inr [(''error'', JStr ''Workflow execution timed out'')],
      [ReadTemplate ''/opt/handler/workflows/flux_image_gen.json'',
       PostPrompt
         [(''3'', JObj [(''class_type'', JStr ''CLIPTextEncode''),
                        (''inputs'', JObj [(''text'', JStr ''a kitchen'')])]),
          (''4'', JObj [(''class_type'', JStr ''CLIPTextEncode''),
                        (''inputs'', JObj [(''text'',
                           JStr ''blurry, low quality, watermark, text'')])]),
          (''5'', JObj [(''class_type'', JStr ''EmptyLatentImage''),
                        (''inputs'', JObj [(''width'', JInt 1280), (''height'', JInt 720),
                                           (''batch_size'', JInt 1)])]),
          (''6'', JObj [(''class_type'', JStr ''KSampler''),
                        (''inputs'', JObj [(''seed'', JInt 7), (''steps'', JInt 25),
                                           (''cfg'', JFloat (15 / 2))])])]
         ''client-0'',
       WsConnect ''client-0'', WsClose])"
proof -
  let ?inp = "[(''workflow_type'', JStr ''image_gen''), (''prompt'', JStr ''a kitchen'')]"
  let ?wf = "[(''3'', JObj [(''class_type'', JStr ''CLIPTextEncode''),
                        (''inputs'', JObj [(''text'', JStr ''a kitchen'')])]),
          (''4'', JObj [(''class_type'', JStr ''CLIPTextEncode''),
                        (''inputs'', JObj [(''text'',
                           JStr ''blurry, low quality, watermark, text'')])]),
          (''5'', JObj [(''class_type'', JStr ''EmptyLatentImage''),
                        (''inputs'', JObj [(''width'', JInt 1280), (''height'', JInt 720),
                                           (''batch_size'', JInt 1)])]),
          (''6'', JObj [(''class_type'', JStr ''KSampler''),
                        (''inputs'', JObj [(''seed'', JInt 7), (''steps'', JInt 25),
                                           (''cfg'', JFloat (15 / 2))])])]"
  let ?e = "TimeoutError ''Workflow execution exceeded 300s timeout''"
  have inp: "dget_or example_job ''input'' (JObj []) = JObj ?inp"
    by (simp add: example_job_def dget_or_def)
  have wt: "\<not> truthy (dget ?inp ''workflow_type'') \<or> hashable (dget ?inp ''workflow_type'')"
    by (simp add: dget_def)
  have v: "validate_input (py stuck_world) ?inp = Inr (True, [])"
    by (simp add: validate_input_def dget_def valid_types_def)
  have l: "load_for stuck_world 0 ?inp
             = (Inr ?wf, [ReadTemplate ''/opt/handler/workflows/flux_image_gen.json''])"
    by (simp add: stuck_world_def example_world_def example_workflow_dir dget_def example_load)
  have e: "execute_for stuck_world 0 ?wf
             = (Inl ?e, [PostPrompt ?wf ''client-0'', WsConnect ''client-0'', WsClose])"
    by (simp add: stuck_world_def example_world_def stuck_execute ComfyUIClient_def
          str_nat.simps digit_def)
  from handler_envelopes [OF inp wt, of stuck_world 0] v
  have "\<forall>workflow tr1. load_for stuck_world 0 ?inp = (Inr workflow, tr1) \<longrightarrow>
          (\<forall>e tr2. execute_for stuck_world 0 workflow = (Inl e, tr2) \<longrightarrow>
             handler stuck_world 0 example_job
               = (Inr [(''error'', JStr (failure_message (py stuck_world) e))], tr1 @ tr2))"
    by blast
  with l e have "handler stuck_world 0 example_job
      = (Inr [(''error'', JStr (failure_message (py stuck_world) ?e))],
         [ReadTemplate ''/opt/handler/workflows/flux_image_gen.json'']
           @ [PostPrompt ?wf ''client-0'', WsConnect ''client-0'', WsClose])"
    by blast
  then show ?thesis by (simp add: failure_message_def)
qed

subsection \<open>Rejected requests\<close>

text \<open>
  Claim C5 asks for an error envelope whenever \<open>workflow_type\<close> is outside the known
  set. When it is a non-empty list, the membership test of \<open>validate_input\<close> raises
  \<open>TypeError\<close> outside the \<open>try\<close> block: \<open>handler\<close> returns no envelope, the
  exception leaves it. Nothing has been requested by then. For every other rejected
  request the claim holds, by \<open>invalid_request_rejected\<close>.
\<close>

theorem unhashable_workflow_type_raises:
  "handler example_world 0
     [(''id'', JStr ''job-3''), (''input'', JObj [(''workflow_type'', JArr [JStr ''image_gen''])])]
   = (Inl TypeError, [])"
  by (simp add: handler_def dget_or_def dget_def validate_input_def)

text \<open>
  Claim C10. A required field whose value is falsy, the empty string among them, is
  rejected exactly as an absent one (for which \<open>get\<close> gives \<open>None\<close>, falsy as
  well): the envelope names the field as missing, and nothing is requested from the
  template store, the render engine or the object store.
\<close>

theorem falsy_required_field_rejected:
  assumes inp: "dget_or job ''input'' (JObj []) = JObj inp"
  shows "(\<not> truthy (dget inp ''workflow_type'') \<longrightarrow>
            handler W n job =
              (Inr [(''error'', JStr ''Missing required field: workflow_type'')], []))
       \<and> (dget inp ''workflow_type'' = JStr ''image_gen'' \<and> \<not> truthy (dget inp ''prompt'') \<longrightarrow>
            handler W n job = (Inr [(''error'', JStr ''image_gen requires 'prompt' field'')], []))
       \<and> (dget inp ''workflow_type'' = JStr ''face_swap''
            \<and> \<not> truthy (dget inp ''source_image'') \<longrightarrow>
            handler W n job =
              (Inr [(''error'', JStr ''face_swap requires 'source_image' field'')], []))
       \<and> (dget inp ''workflow_type'' = JStr ''face_swap''
            \<and> truthy (dget inp ''source_image'') \<and> \<not> truthy (dget inp ''target_image'') \<longrightarrow>
            handler W n job =
              (Inr [(''error'', JStr ''face_swap requires 'target_image' field'')], []))"
  by (auto simp: handler_invalid [OF inp] validate_input_def valid_types_def)

theorem falsy_required_field_rejected_witness:
  "handler example_world 0
     [(''id'', JStr ''job-4''),
      (''input'', JObj [(''workflow_type'', JStr ''image_gen''), (''prompt'', JStr [])])]
   = (Inr [(''error'', JStr ''image_gen requires 'prompt' field'')], [])
   \<and> handler example_world 0
     [(''id'', JStr ''job-4''), (''input'', JObj [(''workflow_type'', JStr ''image_gen'')])]
   = (Inr [(''error'', JStr ''image_gen requires 'prompt' field'')], [])
   \<and> handler example_world 0
     [(''id'', JStr ''job-4''), (''input'', JObj [(''workflow_type'', JStr [])])]
   = (Inr [(''error'', JStr ''Missing required field: workflow_type'')], [])"
  using falsy_required_field_rejected
    [of "[(''id'', JStr ''job-4''),
          (''input'', JObj [(''workflow_type'', JStr ''image_gen''), (''prompt'', JStr [])])]"
        "[(''workflow_type'', JStr ''image_gen''), (''prompt'', JStr [])]" example_world 0]
    falsy_required_field_rejected
    [of "[(''id'', JStr ''job-4''), (''input'', JObj [(''workflow_type'', JStr ''image_gen'')])]"
        "[(''workflow_type'', JStr ''image_gen'')]" example_world 0]
    falsy_required_field_rejected
    [of "[(''id'', JStr ''job-4''), (''input'', JObj [(''workflow_type'', JStr [])])]"
        "[(''workflow_type'', JStr [])]" example_world 0]
  by (simp add: dget_or_def dget_def)

subsection \<open>The client identifier\<close>

lemma client_ids_append [simp]: "client_ids (a @ b) = client_ids a @ client_ids b"
  by (simp add: client_ids_def List.map_filter_def)

lemma client_ids_Nil [simp]: "client_ids [] = []"
  by (simp add: client_ids_def List.map_filter_def)

lemma client_ids_Cons [simp]:
  "client_ids (a # tr) = (case presented a of None \<Rightarrow> client_ids tr | Some c \<Rightarrow> c # client_ids tr)"
  by (cases "presented a") (simp_all add: client_ids_def List.map_filter_def)

lemma fetch_images_silent: "client_ids (snd (fetch_images E infos)) = []"
  by (induction infos) (auto simp: Let_def split: jvalue.splits option.splits sum.splits prod.splits)

lemma fetch_nodes_silent: "client_ids (snd (fetch_nodes E nodes)) = []"
proof (induction nodes)
  case Nil
  then show ?case by simp
next
  case (Cons node nodes)
  show ?case
    using Cons.IH fetch_images_silent [of E]
    by (auto split: jvalue.splits sum.splits prod.splits) (metis snd_conv)+
qed

lemma fetch_outputs_silent: "client_ids (snd (fetch_outputs E pid)) = []"
  using fetch_nodes_silent [of E]
  by (auto simp: fetch_outputs_def split: jvalue.splits sum.splits prod.splits) (metis snd_conv)

lemma wait_loop_silent: "client_ids (snd (wait_loop I E pid closing start now frames)) = []"
proof (induction frames arbitrary: now)
  case Nil
  then show ?case by (simp add: wait_loop.simps)
next
  case (Cons f frames)
  obtain took raw where f: "f = (took, raw)" by (cases f)
  show ?case
    using Cons.IH fetch_outputs_silent [of E pid]
    by (auto simp: f wait_loop.simps split: frame.splits step.splits)
qed

lemma execute_workflow_ids:
  "client_ids (snd (execute_workflow I E c workflow)) \<in> {[client_id c], [client_id c, client_id c]}"
proof -
  have w: "client_ids (snd (wait_for_completion I E ws pid)) = []" for ws pid
    by (simp add: wait_for_completion_def wait_loop_silent)
  show ?thesis
    using w
    by (auto simp: execute_workflow_def queue_prompt_def split: sum.splits option.splits prod.splits)
       (metis snd_conv)+
qed

lemma download_image_silent: "client_ids (snd (download_image I H url dir prefix)) = []"
  by (auto simp: download_image_def Let_def split: jvalue.splits sum.splits option.splits prod.splits)

lemma inject_face_swap_silent: "client_ids (snd (inject_face_swap I H workflow params)) = []"
  using download_image_silent [of I H]
  by (auto simp: inject_face_swap_def Let_def split: option.splits sum.splits prod.splits)
     (metis snd_conv)+

lemma load_silent: "client_ids (snd (load I H rnd dir workflow_type params)) = []"
  using inject_face_swap_silent [of I H]
  by (auto simp: load_def Let_def split: option.splits sum.splits prod.splits jvalue.splits)
     (metis snd_conv)+

lemma upload_silent: "client_ids (snd (upload S sc data key ct)) = []"
  by (auto simp: upload_def split: option.splits sum.splits)

lemma upload_all_silent: "client_ids (snd (upload_all I S sc job_id wt i images)) = []"
proof (induction images arbitrary: i)
  case Nil
  then show ?case by simp
next
  case (Cons image images)
  show ?case
    using Cons.IH [of "Suc i"] upload_silent [of S sc image]
    by (auto simp: Let_def split: sum.splits prod.splits) (metis snd_conv)+
qed

lemma try_body_ids:
  "client_ids (snd (try_body W n inp job_id wt)) \<in> {[], [uuid4 W n], [uuid4 W n, uuid4 W n]}"
proof -
  let ?c = "ComfyUIClient ''127.0.0.1'' (COMFYUI_PORT (machine W)) (uuid4 W n)"
  have c: "client_id ?c = uuid4 W n" by (simp add: ComfyUIClient_def)
  have l: "client_ids (snd (load (py W) (machine W) (randint W n) (WORKFLOW_DIR (machine W)) wt inp)) = []"
    by (rule load_silent)
  have e: "client_ids (snd (execute_workflow (py W) (render_engine W) ?c workflow))
             \<in> {[uuid4 W n], [uuid4 W n, uuid4 W n]}" for workflow
    using execute_workflow_ids [of "py W" "render_engine W" ?c workflow] c by simp
  have u: "client_ids (snd (upload_all (py W) (store W) sc job_id wt 0 images)) = []" for sc images
    by (rule upload_all_silent)
  obtain r1 tr1 where 1: "load (py W) (machine W) (randint W n) (WORKFLOW_DIR (machine W)) wt inp = (r1, tr1)"
    by (cases "load (py W) (machine W) (randint W n) (WORKFLOW_DIR (machine W)) wt inp")
  with l have tr1: "client_ids tr1 = []" by simp
  show ?thesis
  proof (cases r1)
    case (Inl e)
    then show ?thesis using 1 tr1 by (simp add: try_body_def)
  next
    case (Inr workflow)
    obtain r2 tr2 where 2: "execute_workflow (py W) (render_engine W) ?c workflow = (r2, tr2)"
      by (cases "execute_workflow (py W) (render_engine W) ?c workflow")
    with e [of workflow] have tr2: "client_ids tr2 \<in> {[uuid4 W n], [uuid4 W n, uuid4 W n]}" by simp
    show ?thesis
    proof (cases r2)
      case (Inl e)
      then show ?thesis using 1 2 Inr tr1 tr2 by (auto simp: try_body_def)
    next
      case images: (Inr output_images)
      show ?thesis
      proof (cases "StorageClient (environ (machine W)) (store W)")
        case (Inl e)
        then show ?thesis using 1 2 Inr images tr1 tr2 by (auto simp: try_body_def)
      next
        case sc: (Inr storage)
        obtain r3 tr3 where 3: "upload_all (py W) (store W) storage job_id wt 0 output_images = (r3, tr3)"
          by (cases "upload_all (py W) (store W) storage job_id wt 0 output_images")
        with u [of storage output_images] have tr3: "client_ids tr3 = []" by simp
        show ?thesis using 1 2 3 Inr images sc tr1 tr2 tr3
          by (cases r3) (auto simp: try_body_def)
      qed
    qed
  qed
qed

lemma handler_ids:
  "client_ids (snd (handler W n job)) \<in> {[], [uuid4 W n], [uuid4 W n, uuid4 W n]}"
proof -
  have "snd (handler W n job) = []
        \<or> (\<exists>inp job_id wt. snd (handler W n job) = snd (try_body W n inp job_id wt))"
    by (auto simp: handler_def Let_def
          split: jvalue.splits sum.splits prod.splits option.splits exn.splits)
       (metis snd_conv)+
  then show ?thesis
  proof
    assume "snd (handler W n job) = []"
    then show ?thesis by simp
  next
    assume "\<exists>inp job_id wt. snd (handler W n job) = snd (try_body W n inp job_id wt)"
    then obtain inp job_id wt
      where "snd (handler W n job) = snd (try_body W n inp job_id wt)" by blast
    with try_body_ids [of W n inp job_id wt] show ?thesis by simp
  qed
qed

lemma serve_nth: "n < length jobs \<Longrightarrow> serve W jobs ! n = handler W n (jobs ! n)"
  by (simp add: serve_def nth_enumerate_eq)

text \<open>
  Claim C8, as stated, fails: \<open>handler\<close> constructs a new client for every job, so
  two jobs handled by one worker show the render engine two different identifiers.
\<close>

theorem client_id_differs_between_jobs:
  "presented_ids (serve example_world [example_job, example_job])
   = [[''client-0'', ''client-0''], [''client-1'', ''client-1'']]"
  by (simp add: presented_ids_def serve_def enumerate_eq_zip example_run
        str_nat.simps digit_def upt_rec)

text \<open>
  Claim C8, amended. The identifier is generated once for each client instance, and
  \<open>handler\<close> makes one instance for each job: whatever the \<open>n\<close>-th job of a worker
  shows to the render engine, in its submission and in its stream connection, is the
  identifier drawn for that job's client.
\<close>

theorem client_id_per_job:
  assumes "n < length jobs"
  shows "client_ids (snd (serve W jobs ! n)) \<in> {[], [uuid4 W n], [uuid4 W n, uuid4 W n]}"
  using handler_ids [of W n "jobs ! n"] serve_nth [OF assms, of W] by simp

theorem client_id_per_job_witness:
  "client_ids (snd (serve example_world [example_job, example_job] ! 1))
   = [''client-1'', ''client-1'']"
  using client_id_per_job [of 1 "[example_job, example_job]" example_world]
  by (simp add: serve_def enumerate_eq_zip example_run str_nat.simps digit_def upt_rec)

end
